theory Spec2Isabelle
  imports Complex_Main
begin

section \<open>Fraud risk assessment engine: data model\<close>

text \<open>
  The development follows \<^verbatim>\<open>services/anti-fraud-service/src/models/fraud_models.py\<close>
  (the pydantic models) and \<^verbatim>\<open>services/anti-fraud-service/src/services/fraud_detection.py\<close>
  (class \<^verbatim>\<open>FraudDetectionService\<close>). Python floats are read as real numbers:
  rounding, infinities of overflow and NaN are outside the model. An exception is a value
  \<open>Inl e\<close> of a sum type; a pydantic model is a record together with an
  \<open>_init\<close> function that performs the validation its \<^verbatim>\<open>Field\<close> declarations ask for.
\<close>

datatype RiskLevel = LOW | MEDIUM | HIGH | CRITICAL

datatype FraudAction = APPROVE | HOLD | REJECT | MANUAL_REVIEW

datatype TransactionType = PAYMENT | WITHDRAWAL | DEPOSIT | REFUND

text \<open>
  Exceptions. \<open>ValidationError m fs\<close> is pydantic's error for model \<open>m\<close>, with the
  offending fields in declaration order; \<open>ValueError\<close> is a math domain error;
  \<open>ExternalError\<close> is anything raised by the database pool, the cache client or the alert
  sink.
\<close>

datatype error =
    ValidationError string "string list"
  | ValueError string
  | ExternalError string

text \<open>\<^verbatim>\<open>str(e)\<close>; for a validation error the text names the model and the fields.\<close>

fun str_error :: "error \<Rightarrow> string" where
  "str_error (ValidationError m fs) = m @ '': '' @ concat (map (\<lambda>f. f @ '' '') fs)"
| "str_error (ValueError s) = s"
| "str_error (ExternalError s) = s"

text \<open>The values of a \<^verbatim>\<open>Dict[str, Any]\<close>; a dictionary keeps insertion order.\<close>

datatype jval =
    JFloat real
  | JInt int
  | JBool bool
  | JStr string
  | JInf
  | JDict "(string \<times> jval) list"

type_synonym details = "(string \<times> jval) list"

text \<open>\<^verbatim>\<open>d[k] = v\<close> on an insertion-ordered dictionary.\<close>

fun dict_set :: "details \<Rightarrow> string \<Rightarrow> jval \<Rightarrow> details" where
  "dict_set [] k v = [(k, v)]"
| "dict_set ((k', v') # d) k v = (if k' = k then (k, v) # d else (k', v') # dict_set d k v)"

record Money =
  amount :: real
  currency :: string
  precision :: int

text \<open>
  \<^verbatim>\<open>Money(amount=.., currency=.., precision=..)\<close>: \<^verbatim>\<open>amount: float = Field(gt=0)\<close>,
  \<^verbatim>\<open>currency\<close> of length 3, \<^verbatim>\<open>precision\<close> between 0 and 8.
\<close>

definition Money_init :: "real \<Rightarrow> string \<Rightarrow> int \<Rightarrow> error + Money" where
  "Money_init a c p =
     (let bad = (if a > 0 then [] else [''amount''])
              @ (if length c = 3 then [] else [''currency''])
              @ (if 0 \<le> p \<and> p \<le> 8 then [] else [''precision''])
      in if bad = [] then Inr \<lparr>amount = a, currency = c, precision = p\<rparr>
         else Inl (ValidationError ''Money'' bad))"

record GeoLocation =
  latitude :: real
  longitude :: real
  country :: string

record DeviceFingerprint =
  fingerprint :: string
  user_agent :: string
  ip_address :: string

text \<open>A \<^verbatim>\<open>datetime\<close> is a number of seconds since the epoch, in UTC.\<close>

type_synonym datetime = int

definition hour :: "datetime \<Rightarrow> nat" where
  "hour t = nat ((t div 3600) mod 24)"

record Transaction =
  tx_id :: string
  tx_user_id :: string
  tx_type :: TransactionType
  tx_amount :: Money
  tx_timestamp :: datetime
  device_fingerprint :: DeviceFingerprint
  geolocation :: GeoLocation

record UserRiskProfile =
  user_id :: string
  base_score :: real
  transaction_history_score :: real
  age_score :: real
  verification_level :: string
  dispute_rate :: real
  velocity_score :: real
  last_updated :: datetime
  total_transactions :: int
  total_amount :: Money
  average_transaction_amount :: Money
  account_age_days :: int
  failed_attempts_24h :: int
  risk_level :: RiskLevel

record FraudRuleResult =
  rule_name :: string
  triggered :: bool
  score :: real
  details :: details
  execution_time_ms :: real

text \<open>
  \<^verbatim>\<open>FraudRuleResult(rule_name=.., triggered=.., score=.., details=.., execution_time_ms=..)\<close>.
  The model declares \<^verbatim>\<open>score: float = Field(ge=0, le=1)\<close> and
  \<^verbatim>\<open>execution_time_ms: float\<close> with no default, so the last keyword is required:
  \<open>None\<close> stands for a call that leaves it out.
\<close>

definition FraudRuleResult_init ::
  "string \<Rightarrow> bool \<Rightarrow> real \<Rightarrow> details \<Rightarrow> real option \<Rightarrow> error + FraudRuleResult" where
  "FraudRuleResult_init n t s d ms =
     (let bad = (if 0 \<le> s \<and> s \<le> 1 then [] else [''score''])
              @ (case ms of None \<Rightarrow> [''execution_time_ms''] | Some _ \<Rightarrow> [])
      in case ms of
           Some m \<Rightarrow>
             (if bad = [] then
                Inr \<lparr>rule_name = n, triggered = t, score = s, details = d, execution_time_ms = m\<rparr>
              else Inl (ValidationError ''FraudRuleResult'' bad))
         | None \<Rightarrow> Inl (ValidationError ''FraudRuleResult'' bad))"

section \<open>Score fusion, level, action, confidence\<close>

text \<open>Python's \<^verbatim>\<open>sum\<close>: a left fold from 0.\<close>

definition py_sum :: "real list \<Rightarrow> real" where
  "py_sum xs = foldl (+) 0 xs"

text \<open>\<^verbatim>\<open>np.clip(x, lo, hi)\<close> is \<^verbatim>\<open>minimum(hi, maximum(x, lo))\<close>.\<close>

definition np_clip :: "real \<Rightarrow> real \<Rightarrow> real \<Rightarrow> real" where
  "np_clip x lo hi = min hi (max x lo)"

definition calculate_final_score :: "FraudRuleResult list \<Rightarrow> real option \<Rightarrow> real" where
  "calculate_final_score rule_results ml_score =
     (let rule_score = py_sum (map score rule_results);
          final_score = (case ml_score of
                           Some m \<Rightarrow> (rule_score * 0.6) + (m * 0.4)
                         | None \<Rightarrow> rule_score)
      in np_clip final_score 0 1)"

definition determine_risk_level :: "real \<Rightarrow> RiskLevel" where
  "determine_risk_level s =
     (if s \<ge> 0.8 then CRITICAL
      else if s \<ge> 0.6 then HIGH
      else if s \<ge> 0.3 then MEDIUM
      else LOW)"

definition determine_action :: "real \<Rightarrow> RiskLevel \<Rightarrow> FraudRuleResult list \<Rightarrow> FraudAction" where
  "determine_action s lvl rule_results =
     (if s \<ge> 0.8 then REJECT
      else if s \<ge> 0.6 then HOLD
      else if s \<ge> 0.3 then
        (let high_weight_triggered = list_ex (\<lambda>r. triggered r \<and> score r > 0.5) rule_results
         in if high_weight_triggered then MANUAL_REVIEW else APPROVE)
      else APPROVE)"

definition calculate_confidence :: "FraudRuleResult list \<Rightarrow> real option \<Rightarrow> real" where
  "calculate_confidence rule_results ml_score =
     (if rule_results = [] \<and> ml_score = None then 0.0
      else
        (let rule_confidence = py_sum (map score (filter triggered rule_results));
             indicators = (if rule_confidence > 0 then [rule_confidence] else [])
                        @ (case ml_score of Some m \<Rightarrow> [m] | None \<Rightarrow> [])
         in case indicators of
              [] \<Rightarrow> 0.5
            | [x] \<Rightarrow> x
            | x # xs \<Rightarrow>
                (let max_indicator = foldl max x xs;
                     min_indicator = foldl min x xs;
                     agreement = 1 - (max_indicator - min_indicator)
                 in (py_sum indicators / real (length indicators)) * agreement)))"

section \<open>The store, the cache and the other collaborators\<close>

text \<open>
  What the service reads from outside is a parameter of the model: the answers of the
  relational store to the queries of the helper methods, the model's prediction, the clock,
  and whether a call to the cache, the store or the alert sink raises. The helpers
  \<^verbatim>\<open>_get_user_known_devices\<close>, \<^verbatim>\<open>_is_device_blacklisted\<close> and
  \<^verbatim>\<open>_get_user_typical_transaction_hours\<close> are placeholders in the source (their bodies are
  a comment naming the table to query and the constants \<^verbatim>\<open>[]\<close>, \<^verbatim>\<open>False\<close>,
  \<^verbatim>\<open>{}\<close>); like the implemented queries they are read from the environment, and
  \<open>source_placeholders\<close> below fixes them to the constants of the source.
  \<open>t_start\<close>, \<open>t_corr\<close>, \<open>t_assessed\<close> and \<open>t_done\<close> are the readings of
  \<^verbatim>\<open>time.time()\<close> in \<^verbatim>\<open>assess_transaction\<close>, in the order of the calls, and
  \<open>rule_ms\<close> is the time in milliseconds measured around a rule. Calls to the logger
  other than the alert are not modelled.
\<close>

record location_row =
  row_latitude :: real
  row_longitude :: real
  row_frequency :: int

record user_row =
  row_created_at :: datetime
  row_verification_level :: string
  row_total_transactions :: int
  row_total_amount :: real
  row_avg_amount :: real
  row_failed_attempts_24h :: int

record env =
  get_transaction_count_in_window :: "string \<Rightarrow> int \<Rightarrow> datetime \<Rightarrow> error + int"
  get_transaction_amount_in_window :: "string \<Rightarrow> int \<Rightarrow> datetime \<Rightarrow> error + real"
  get_user_typical_locations :: "string \<Rightarrow> error + location_row list"
  get_user_known_devices :: "string \<Rightarrow> error + string list"
  is_device_blacklisted :: "string \<Rightarrow> error + bool"
  get_user_typical_transaction_hours :: "string \<Rightarrow> error + (string \<times> real) list"
  fetch_user_row :: "string \<Rightarrow> error + user_row option"
  ml_fraud_probability :: "Transaction \<Rightarrow> UserRiskProfile \<Rightarrow> real option"
  redis_get_error :: "error option"
  redis_setex_error :: "error option"
  redis_delete_error :: "error option"
  db_execute_error :: "error option"
  alert_error :: "error option"
  utcnow :: datetime
  uuid4 :: string
  format_3f :: "real \<Rightarrow> string"
  t_start :: real
  t_corr :: real
  t_assessed :: real
  t_done :: real
  rule_ms :: "string \<Rightarrow> real"

definition source_placeholders :: "env \<Rightarrow> env" where
  "source_placeholders e =
     e\<lparr>get_user_known_devices := (\<lambda>_. Inr []),
       is_device_blacklisted := (\<lambda>_. Inr False),
       get_user_typical_transaction_hours := (\<lambda>_. Inr [])\<rparr>"

text \<open>
  The mutable world: the cache (key to cached profile; serialisation is the identity), the
  insert-only table \<^verbatim>\<open>fraud_assessments\<close>, and the alerts sent.
\<close>

record FraudAssessment =
  fa_id :: string
  fa_user_id :: string
  transaction_id :: "string option"
  fa_score :: real
  fa_risk_level :: RiskLevel
  rules :: "FraudRuleResult list"
  ml_score :: "real option"
  action :: FraudAction
  reason :: string
  confidence :: real
  assessment_time_ms :: real
  created_at :: datetime
  requires_manual_review :: bool

record world =
  cache :: "string \<rightharpoonup> UserRiskProfile"
  fraud_assessments :: "FraudAssessment list"
  alerts :: "FraudAssessment list"

record FraudDetectionRequest =
  req_user_id :: string
  transaction :: "Transaction option"

record FraudDetectionResponse =
  success :: bool
  assessment :: "FraudAssessment option"
  error :: "string option"
  processing_time_ms :: real
  correlation_id :: string

text \<open>
  \<^verbatim>\<open>FraudAssessment(...)\<close>: \<^verbatim>\<open>score\<close>, \<^verbatim>\<open>ml_score\<close> (when given) and
  \<^verbatim>\<open>confidence\<close> are declared \<^verbatim>\<open>Field(ge=0, le=1)\<close>; \<^verbatim>\<open>id\<close> and \<^verbatim>\<open>created_at\<close>
  come from their default factories.
\<close>

definition unit_interval :: "real \<Rightarrow> bool" where
  "unit_interval x = (0 \<le> x \<and> x \<le> 1)"

definition FraudAssessment_init ::
  "env \<Rightarrow> string \<Rightarrow> string \<Rightarrow> real \<Rightarrow> RiskLevel \<Rightarrow> FraudRuleResult list \<Rightarrow> real option \<Rightarrow>
   FraudAction \<Rightarrow> string \<Rightarrow> real \<Rightarrow> real \<Rightarrow> bool \<Rightarrow> error + FraudAssessment" where
  "FraudAssessment_init e uid tid s lvl rs ml act rsn conf ms rmr =
     (let bad = (if unit_interval s then [] else [''score''])
              @ (case ml of None \<Rightarrow> [] | Some m \<Rightarrow> if unit_interval m then [] else [''ml_score''])
              @ (if unit_interval conf then [] else [''confidence''])
      in if bad = [] then
           Inr \<lparr>fa_id = uuid4 e, fa_user_id = uid, transaction_id = Some tid, fa_score = s,
                fa_risk_level = lvl, rules = rs, ml_score = ml, action = act, reason = rsn,
                confidence = conf, assessment_time_ms = ms, created_at = utcnow e,
                requires_manual_review = rmr\<rparr>
         else Inl (ValidationError ''FraudAssessment'' bad))"

section \<open>Rule catalog and velocity windows\<close>

record rule_config =
  cfg_name :: string
  cfg_description :: string
  cfg_weight :: real
  cfg_action :: FraudAction
  cfg_enabled :: bool

text \<open>\<^verbatim>\<open>_initialize_fraud_rules\<close>: the dictionary in insertion order.\<close>

definition fraud_rules :: "(string \<times> rule_config) list" where
  "fraud_rules =
     [(''velocity_check'',
         \<lparr>cfg_name = ''VELOCITY_CHECK'', cfg_description = ''Check transaction velocity limits'',
          cfg_weight = 0.3, cfg_action = HOLD, cfg_enabled = True\<rparr>),
      (''amount_anomaly'',
         \<lparr>cfg_name = ''AMOUNT_ANOMALY'', cfg_description = ''Detect unusual transaction amounts'',
          cfg_weight = 0.25, cfg_action = MANUAL_REVIEW, cfg_enabled = True\<rparr>),
      (''geolocation_anomaly'',
         \<lparr>cfg_name = ''GEOLOCATION_ANOMALY'', cfg_description = ''Detect unusual geographic locations'',
          cfg_weight = 0.2, cfg_action = HOLD, cfg_enabled = True\<rparr>),
      (''device_fingerprint'',
         \<lparr>cfg_name = ''DEVICE_FINGERPRINT'', cfg_description = ''Check for new or suspicious devices'',
          cfg_weight = 0.15, cfg_action = MANUAL_REVIEW, cfg_enabled = True\<rparr>),
      (''time_pattern'',
         \<lparr>cfg_name = ''TIME_PATTERN'', cfg_description = ''Detect unusual transaction timing'',
          cfg_weight = 0.1, cfg_action = MANUAL_REVIEW, cfg_enabled = True\<rparr>)]"

record VelocityCheck =
  window_minutes :: int
  max_transactions :: int
  max_amount :: "Money option"

text \<open>
  \<^verbatim>\<open>self.velocity_checks\<close>. Both \<^verbatim>\<open>Money\<close> limits pass the validation of
  \<open>Money_init\<close> (lemma \<open>velocity_limits_valid\<close>).
\<close>

definition velocity_checks :: "(string \<times> VelocityCheck) list" where
  "velocity_checks =
     [(''hourly'', \<lparr>window_minutes = 60, max_transactions = 10, max_amount = None\<rparr>),
      (''daily'', \<lparr>window_minutes = 1440, max_transactions = 50,
                  max_amount = Some \<lparr>amount = 10000, currency = ''USD'', precision = 2\<rparr>\<rparr>),
      (''weekly'', \<lparr>window_minutes = 10080, max_transactions = 200,
                   max_amount = Some \<lparr>amount = 50000, currency = ''USD'', precision = 2\<rparr>\<rparr>)]"

section \<open>Rule evaluators\<close>

text \<open>
  Every evaluator ends in \<^verbatim>\<open>return FraudRuleResult(rule_name=.., triggered=.., score=..,
  details=..)\<close>. The model splits it in two: \<open>_fields\<close> computes the four keyword
  arguments (or the exception a helper raised on the way), and the evaluator proper hands
  them to \<open>FraudRuleResult_init\<close>, with no \<^verbatim>\<open>execution_time_ms\<close>, as the source does.
\<close>

record rule_fields =
  f_rule_name :: string
  f_triggered :: bool
  f_score :: real
  f_details :: details

definition construct_result :: "error + rule_fields \<Rightarrow> error + FraudRuleResult" where
  "construct_result x =
     (case x of
        Inl err \<Rightarrow> Inl err
      | Inr f \<Rightarrow> FraudRuleResult_init (f_rule_name f) (f_triggered f) (f_score f) (f_details f) None)"

subsection \<open>Velocity\<close>

text \<open>The loop over the windows; the state is \<^verbatim>\<open>(triggered, score, details)\<close>.\<close>

fun velocity_loop ::
  "env \<Rightarrow> Transaction \<Rightarrow> (string \<times> VelocityCheck) list \<Rightarrow> bool \<times> real \<times> details \<Rightarrow>
   error + bool \<times> real \<times> details" where
  "velocity_loop e tx [] st = Inr st"
| "velocity_loop e tx ((period, vc) # rest) (trig, sc, det) =
     (case get_transaction_count_in_window e (tx_user_id tx) (window_minutes vc) (tx_timestamp tx) of
        Inl err \<Rightarrow> Inl err
      | Inr count \<Rightarrow>
          (let st1 =
                 (if count > max_transactions vc then
                    (True, max sc 0.8,
                     dict_set det period
                       (JDict [(''count'', JInt count), (''limit'', JInt (max_transactions vc)),
                               (''exceeded'', JBool True)]))
                  else (trig, sc, det))
           in case max_amount vc of
                None \<Rightarrow> velocity_loop e tx rest st1
              | Some cap \<Rightarrow>
                  (case get_transaction_amount_in_window e (tx_user_id tx) (window_minutes vc)
                          (tx_timestamp tx) of
                     Inl err \<Rightarrow> Inl err
                   | Inr total_amt \<Rightarrow>
                       velocity_loop e tx rest
                         (if total_amt > amount cap then
                            (True, max (fst (snd st1)) 0.9,
                             dict_set (snd (snd st1)) (period @ ''_amount'')
                               (JDict [(''total'', JFloat total_amt), (''limit'', JFloat (amount cap)),
                                       (''exceeded'', JBool True)]))
                          else st1))))"

definition velocity_rules_fields :: "env \<Rightarrow> Transaction \<Rightarrow> rule_config \<Rightarrow> error + rule_fields" where
  "velocity_rules_fields e tx cfg =
     (case velocity_loop e tx velocity_checks (False, 0.0, []) of
        Inl err \<Rightarrow> Inl err
      | Inr (trig, sc, det) \<Rightarrow>
          Inr \<lparr>f_rule_name = cfg_name cfg, f_triggered = trig, f_score = sc * cfg_weight cfg,
               f_details = det\<rparr>)"

definition check_velocity_rules :: "env \<Rightarrow> Transaction \<Rightarrow> rule_config \<Rightarrow> error + FraudRuleResult" where
  "check_velocity_rules e tx cfg = construct_result (velocity_rules_fields e tx cfg)"

subsection \<open>Amount anomaly\<close>

definition amount_anomaly_fields :: "Transaction \<Rightarrow> UserRiskProfile \<Rightarrow> rule_config \<Rightarrow> rule_fields" where
  "amount_anomaly_fields tx user_profile cfg =
     (let st =
            (if total_transactions user_profile > 0 then
               (let avg_amount = amount (average_transaction_amount user_profile);
                    current_amount = amount (tx_amount tx)
                in if avg_amount > 0 then
                     (let z_score = \<bar>current_amount - avg_amount\<bar> / avg_amount;
                          ts = (if z_score > 3 then (True, min 0.8 (z_score / 5)) else (False, 0.0))
                      in (fst ts, snd ts,
                          [(''current_amount'', JFloat current_amount),
                           (''average_amount'', JFloat avg_amount),
                           (''z_score'', JFloat z_score),
                           (''threshold'', JFloat 3.0)]))
                   else (False, 0.0, []))
             else (False, 0.0, []))
      in \<lparr>f_rule_name = cfg_name cfg, f_triggered = fst st, f_score = fst (snd st) * cfg_weight cfg,
          f_details = snd (snd st)\<rparr>)"

definition check_amount_anomaly ::
  "Transaction \<Rightarrow> UserRiskProfile \<Rightarrow> rule_config \<Rightarrow> error + FraudRuleResult" where
  "check_amount_anomaly tx user_profile cfg =
     construct_result (Inr (amount_anomaly_fields tx user_profile cfg))"

subsection \<open>Geolocation anomaly\<close>

text \<open>\<^verbatim>\<open>math.radians\<close>, and the Haversine distance with its two domain errors.\<close>

definition radians :: "real \<Rightarrow> real" where
  "radians x = x * (pi / 180)"

definition calculate_distance :: "real \<Rightarrow> real \<Rightarrow> real \<Rightarrow> real \<Rightarrow> error + real" where
  "calculate_distance lat1 lon1 lat2 lon2 =
     (let la1 = radians lat1; lo1 = radians lon1; la2 = radians lat2; lo2 = radians lon2;
          dlat = la2 - la1;
          dlon = lo2 - lo1;
          a = (sin (dlat / 2))\<^sup>2 + cos la1 * cos la2 * (sin (dlon / 2))\<^sup>2
      in if a < 0 \<or> sqrt a > 1 then Inl (ValueError ''math domain error'')
         else (let c = 2 * arcsin (sqrt a); r = 6371 in Inr (c * r)))"

text \<open>The loop for \<^verbatim>\<open>min_distance\<close>; \<open>None\<close> is \<^verbatim>\<open>float('inf')\<close>.\<close>

fun min_distance_loop :: "GeoLocation \<Rightarrow> location_row list \<Rightarrow> real option \<Rightarrow> error + real option" where
  "min_distance_loop g [] m = Inr m"
| "min_distance_loop g (loc # rest) m =
     (case calculate_distance (latitude g) (longitude g) (row_latitude loc) (row_longitude loc) of
        Inl err \<Rightarrow> Inl err
      | Inr distance \<Rightarrow>
          min_distance_loop g rest (Some (case m of None \<Rightarrow> distance | Some x \<Rightarrow> min x distance)))"

definition geolocation_anomaly_fields ::
  "env \<Rightarrow> Transaction \<Rightarrow> UserRiskProfile \<Rightarrow> rule_config \<Rightarrow> error + rule_fields" where
  "geolocation_anomaly_fields e tx user_profile cfg =
     (case get_user_typical_locations e (tx_user_id tx) of
        Inl err \<Rightarrow> Inl err
      | Inr typical_locations \<Rightarrow>
          (if typical_locations \<noteq> [] then
             (case min_distance_loop (geolocation tx) typical_locations None of
                Inl err \<Rightarrow> Inl err
              | Inr min_distance \<Rightarrow>
                  (let ts = (case min_distance of
                               None \<Rightarrow> (True, 0.7)
                             | Some d \<Rightarrow> if d > 1000 then (True, min 0.7 (d / 5000)) else (False, 0.0))
                   in Inr \<lparr>f_rule_name = cfg_name cfg, f_triggered = fst ts,
                           f_score = snd ts * cfg_weight cfg,
                           f_details =
                             [(''current_location'',
                                 JDict [(''lat'', JFloat (latitude (geolocation tx))),
                                        (''lon'', JFloat (longitude (geolocation tx))),
                                        (''country'', JStr (country (geolocation tx)))]),
                              (''min_distance_km'',
                                 (case min_distance of None \<Rightarrow> JInf | Some d \<Rightarrow> JFloat d)),
                              (''threshold_km'', JInt 1000)]\<rparr>))
           else Inr \<lparr>f_rule_name = cfg_name cfg, f_triggered = False,
                     f_score = 0.0 * cfg_weight cfg,
                     f_details = [(''status'', JStr ''no_location_history'')]\<rparr>))"

definition check_geolocation_anomaly ::
  "env \<Rightarrow> Transaction \<Rightarrow> UserRiskProfile \<Rightarrow> rule_config \<Rightarrow> error + FraudRuleResult" where
  "check_geolocation_anomaly e tx user_profile cfg =
     construct_result (geolocation_anomaly_fields e tx user_profile cfg)"

subsection \<open>Device fingerprint\<close>

text \<open>
  The blacklist is asked twice for an unknown device (for the score, and again for the
  details); the store answers both calls alike.
\<close>

definition device_fingerprint_fields ::
  "env \<Rightarrow> Transaction \<Rightarrow> UserRiskProfile \<Rightarrow> rule_config \<Rightarrow> error + rule_fields" where
  "device_fingerprint_fields e tx user_profile cfg =
     (case get_user_known_devices e (tx_user_id tx) of
        Inl err \<Rightarrow> Inl err
      | Inr known_devices \<Rightarrow>
          (if fingerprint (device_fingerprint tx) \<notin> set known_devices then
             (case is_device_blacklisted e (fingerprint (device_fingerprint tx)) of
                Inl err \<Rightarrow> Inl err
              | Inr blacklisted \<Rightarrow>
                  Inr \<lparr>f_rule_name = cfg_name cfg, f_triggered = True,
                       f_score = (if blacklisted then 1.0 else 0.5) * cfg_weight cfg,
                       f_details =
                         [(''device_fingerprint'', JStr (fingerprint (device_fingerprint tx))),
                          (''is_known_device'', JBool False),
                          (''known_devices_count'', JInt (int (length known_devices))),
                          (''is_blacklisted'', JBool blacklisted)]\<rparr>)
           else Inr \<lparr>f_rule_name = cfg_name cfg, f_triggered = False,
                     f_score = 0.0 * cfg_weight cfg,
                     f_details =
                       [(''device_fingerprint'', JStr (fingerprint (device_fingerprint tx))),
                        (''is_known_device'', JBool True),
                        (''known_devices_count'', JInt (int (length known_devices)))]\<rparr>))"

definition check_device_fingerprint ::
  "env \<Rightarrow> Transaction \<Rightarrow> UserRiskProfile \<Rightarrow> rule_config \<Rightarrow> error + FraudRuleResult" where
  "check_device_fingerprint e tx user_profile cfg =
     construct_result (device_fingerprint_fields e tx user_profile cfg)"

subsection \<open>Time pattern\<close>

text \<open>The decimal digit of a number below ten.\<close>

definition digit :: "nat \<Rightarrow> char" where
  "digit n = ''0123456789'' ! (n mod 10)"

text \<open>\<^verbatim>\<open>str(n)\<close> for a natural number, and for an integer.\<close>

fun str_nat :: "nat \<Rightarrow> string" where
  "str_nat n = (if n < 10 then [digit n] else str_nat (n div 10) @ [digit (n mod 10)])"

definition str_int :: "int \<Rightarrow> string" where
  "str_int i = (if i < 0 then CHR ''-'' # str_nat (nat (- i)) else str_nat (nat i))"

definition time_pattern_fields ::
  "env \<Rightarrow> Transaction \<Rightarrow> UserRiskProfile \<Rightarrow> rule_config \<Rightarrow> error + rule_fields" where
  "time_pattern_fields e tx user_profile cfg =
     (case get_user_typical_transaction_hours e (tx_user_id tx) of
        Inl err \<Rightarrow> Inl err
      | Inr typical_hours \<Rightarrow>
          (let current_hour = hour (tx_timestamp tx)
           in if typical_hours \<noteq> [] then
                (let hour_frequency =
                       (case map_of typical_hours (str_nat current_hour) of
                          Some f \<Rightarrow> f
                        | None \<Rightarrow> 0);
                     total_frequency = py_sum (map snd typical_hours)
                 in if total_frequency > 0 then
                      (let hour_probability = hour_frequency / total_frequency;
                           ts = (if hour_probability < 0.05 then (True, 0.4) else (False, 0.0))
                       in Inr \<lparr>f_rule_name = cfg_name cfg, f_triggered = fst ts,
                               f_score = snd ts * cfg_weight cfg,
                               f_details =
                                 [(''current_hour'', JInt (int current_hour)),
                                  (''hour_frequency'', JFloat hour_frequency),
                                  (''total_frequency'', JFloat total_frequency),
                                  (''hour_probability'', JFloat hour_probability),
                                  (''threshold'', JFloat 0.05)]\<rparr>)
                    else Inr \<lparr>f_rule_name = cfg_name cfg, f_triggered = False,
                              f_score = 0.0 * cfg_weight cfg, f_details = []\<rparr>)
              else Inr \<lparr>f_rule_name = cfg_name cfg, f_triggered = False,
                        f_score = 0.0 * cfg_weight cfg,
                        f_details = [(''status'', JStr ''no_transaction_history'')]\<rparr>))"

definition check_time_pattern ::
  "env \<Rightarrow> Transaction \<Rightarrow> UserRiskProfile \<Rightarrow> rule_config \<Rightarrow> error + FraudRuleResult" where
  "check_time_pattern e tx user_profile cfg =
     construct_result (time_pattern_fields e tx user_profile cfg)"

section \<open>The rule engine\<close>

text \<open>
  The branch ladder of \<^verbatim>\<open>_execute_fraud_rules\<close>: \<open>None\<close> is the final
  \<^verbatim>\<open>else: continue\<close>.
\<close>

definition run_rule ::
  "env \<Rightarrow> Transaction \<Rightarrow> UserRiskProfile \<Rightarrow> string \<Rightarrow> rule_config \<Rightarrow>
   (error + FraudRuleResult) option" where
  "run_rule e tx user_profile rname cfg =
     (if rname = ''velocity_check'' then Some (check_velocity_rules e tx cfg)
      else if rname = ''amount_anomaly'' then Some (check_amount_anomaly tx user_profile cfg)
      else if rname = ''geolocation_anomaly'' then
        Some (check_geolocation_anomaly e tx user_profile cfg)
      else if rname = ''device_fingerprint'' then
        Some (check_device_fingerprint e tx user_profile cfg)
      else if rname = ''time_pattern'' then Some (check_time_pattern e tx user_profile cfg)
      else None)"

text \<open>
  The result appended by the \<^verbatim>\<open>except Exception\<close> branch. Its constructor call names
  all five fields, with score 0.0, so it passes validation (lemma \<open>error_result_valid\<close>).
\<close>

definition error_result :: "string \<Rightarrow> error \<Rightarrow> real \<Rightarrow> FraudRuleResult" where
  "error_result rname err ms =
     \<lparr>rule_name = rname, triggered = False, score = 0.0,
      details = [(''error'', JStr (str_error err))], execution_time_ms = ms\<rparr>"

text \<open>
  One pass through the \<^verbatim>\<open>try\<close> block for a rule whose evaluator returned or raised
  \<open>x\<close>: the result with its time filled in, or the result of the \<^verbatim>\<open>except\<close>
  branch.
\<close>

definition rule_outcome :: "string \<Rightarrow> real \<Rightarrow> error + FraudRuleResult \<Rightarrow> FraudRuleResult" where
  "rule_outcome rname ms x =
     (case x of
        Inr result \<Rightarrow> result\<lparr>execution_time_ms := ms\<rparr>
      | Inl err \<Rightarrow> error_result rname err ms)"

text \<open>
  The loop over the catalog, for any evaluator \<open>ev\<close>; \<open>ms\<close> gives the elapsed
  milliseconds measured for a rule.
\<close>

fun execute_rules_loop ::
  "(string \<Rightarrow> rule_config \<Rightarrow> (error + FraudRuleResult) option) \<Rightarrow> (string \<Rightarrow> real) \<Rightarrow>
   (string \<times> rule_config) list \<Rightarrow> FraudRuleResult list" where
  "execute_rules_loop ev ms [] = []"
| "execute_rules_loop ev ms ((rname, cfg) # rest) =
     (if \<not> cfg_enabled cfg then execute_rules_loop ev ms rest
      else
        (case ev rname cfg of
           None \<Rightarrow> execute_rules_loop ev ms rest
         | Some x \<Rightarrow> rule_outcome rname (ms rname) x # execute_rules_loop ev ms rest))"

definition execute_fraud_rules :: "env \<Rightarrow> Transaction \<Rightarrow> UserRiskProfile \<Rightarrow> FraudRuleResult list" where
  "execute_fraud_rules e tx user_profile =
     execute_rules_loop (run_rule e tx user_profile) (rule_ms e) fraud_rules"

section \<open>Model score and reason\<close>

text \<open>
  \<open>ml_fraud_probability\<close> is the prediction, \<open>None\<close> when no model is loaded or the
  prediction raises; \<^verbatim>\<open>_calculate_ml_score\<close> clips it.
\<close>

definition calculate_ml_score :: "env \<Rightarrow> Transaction \<Rightarrow> UserRiskProfile \<Rightarrow> real option" where
  "calculate_ml_score e tx user_profile =
     (case ml_fraud_probability e tx user_profile of
        None \<Rightarrow> None
      | Some fraud_probability \<Rightarrow> Some (np_clip fraud_probability 0 1))"

fun join :: "string \<Rightarrow> string list \<Rightarrow> string" where
  "join sep [] = []"
| "join sep [x] = x"
| "join sep (x # y # ys) = x @ sep @ join sep (y # ys)"

definition generate_assessment_reason ::
  "env \<Rightarrow> FraudRuleResult list \<Rightarrow> real option \<Rightarrow> real \<Rightarrow> string" where
  "generate_assessment_reason e rule_results ml final_score =
     (let triggered_rules = filter triggered rule_results;
          reasons =
            (if triggered_rules \<noteq> [] then
               [''Rules triggered: '' @ join '', '' (map rule_name triggered_rules)]
             else [])
            @ (case ml of Some m \<Rightarrow> [''ML score: '' @ format_3f e m] | None \<Rightarrow> [])
            @ [''Final score: '' @ format_3f e final_score]
      in join ''; '' reasons)"

section \<open>The user risk profile\<close>

definition verification_scores :: "(string \<times> real) list" where
  "verification_scores =
     [(''NONE'', 0.3), (''BASIC'', 0.1), (''ENHANCED'', -0.1), (''PREMIUM'', -0.2)]"

definition calculate_base_risk_score :: "int \<Rightarrow> string \<Rightarrow> int \<Rightarrow> real" where
  "calculate_base_risk_score age_days vlevel total_tx =
     (let s0 = 0.5;
          s1 = (if age_days < 7 then s0 + 0.3
                else if age_days < 30 then s0 + 0.2
                else if age_days < 90 then s0 + 0.1
                else s0);
          s2 = s1 + (case map_of verification_scores vlevel of Some d \<Rightarrow> d | None \<Rightarrow> 0.1);
          s3 = (if total_tx = 0 then s2 + 0.2
                else if total_tx < 10 then s2 + 0.1
                else if total_tx > 100 then s2 - 0.1
                else s2)
      in np_clip s3 0 1)"

definition calculate_transaction_history_score :: "int \<Rightarrow> real" where
  "calculate_transaction_history_score total_tx =
     (if total_tx = 0 then 0.8
      else if total_tx < 10 then 0.6
      else if total_tx < 50 then 0.3
      else 0.1)"

definition calculate_age_score :: "int \<Rightarrow> real" where
  "calculate_age_score age_days =
     (if age_days < 7 then 0.9
      else if age_days < 30 then 0.7
      else if age_days < 90 then 0.4
      else if age_days < 365 then 0.2
      else 0.1)"

text \<open>
  \<^verbatim>\<open>UserRiskProfile(...)\<close>: the five ratio fields are \<^verbatim>\<open>Field(ge=0, le=1)\<close>, the three
  counts \<^verbatim>\<open>Field(ge=0)\<close>. The two \<^verbatim>\<open>Money\<close> arguments are built by the caller, before
  the call.
\<close>

definition UserRiskProfile_init ::
  "string \<Rightarrow> real \<Rightarrow> real \<Rightarrow> real \<Rightarrow> string \<Rightarrow> real \<Rightarrow> real \<Rightarrow> datetime \<Rightarrow> int \<Rightarrow> Money \<Rightarrow>
   Money \<Rightarrow> int \<Rightarrow> int \<Rightarrow> RiskLevel \<Rightarrow> error + UserRiskProfile" where
  "UserRiskProfile_init uid bs ths ags vl dr vs lu tt ta av aad fa rl =
     (let bad = (if unit_interval bs then [] else [''base_score''])
              @ (if unit_interval ths then [] else [''transaction_history_score''])
              @ (if unit_interval ags then [] else [''age_score''])
              @ (if unit_interval dr then [] else [''dispute_rate''])
              @ (if unit_interval vs then [] else [''velocity_score''])
              @ (if 0 \<le> tt then [] else [''total_transactions''])
              @ (if 0 \<le> aad then [] else [''account_age_days''])
              @ (if 0 \<le> fa then [] else [''failed_attempts_24h''])
      in if bad = [] then
           Inr \<lparr>user_id = uid, base_score = bs, transaction_history_score = ths, age_score = ags,
                verification_level = vl, dispute_rate = dr, velocity_score = vs,
                last_updated = lu, total_transactions = tt, total_amount = ta,
                average_transaction_amount = av, account_age_days = aad,
                failed_attempts_24h = fa, risk_level = rl\<rparr>
         else Inl (ValidationError ''UserRiskProfile'' bad))"

text \<open>
  \<^verbatim>\<open>_create_default_user_profile\<close>. Python evaluates the keyword arguments in order, so
  the two \<^verbatim>\<open>Money(amount=0, currency='USD', precision=2)\<close> calls come before the profile's
  own validation.
\<close>

definition create_default_user_profile :: "env \<Rightarrow> string \<Rightarrow> error + UserRiskProfile" where
  "create_default_user_profile e uid =
     (case Money_init 0 ''USD'' 2 of
        Inl err \<Rightarrow> Inl err
      | Inr ta \<Rightarrow>
          (case Money_init 0 ''USD'' 2 of
             Inl err \<Rightarrow> Inl err
           | Inr av \<Rightarrow>
               UserRiskProfile_init uid 0.7 0.0 0.8 ''NONE'' 0.0 0.0 (utcnow e) 0 ta av 0 0 MEDIUM))"

definition cache_key_of :: "string \<Rightarrow> string" where
  "cache_key_of uid = ''user_risk_profile:'' @ uid"

text \<open>
  \<^verbatim>\<open>_get_user_risk_profile\<close>. The result pairs the value or exception with the world
  after the call. \<^verbatim>\<open>(datetime.utcnow() - created_at).days\<close> is the floor of the
  difference in days.
\<close>

definition get_user_risk_profile ::
  "env \<Rightarrow> world \<Rightarrow> string \<Rightarrow> (error + UserRiskProfile) \<times> world" where
  "get_user_risk_profile e w uid =
     (let cache_key = cache_key_of uid
      in case redis_get_error e of
           Some err \<Rightarrow> (Inl err, w)
         | None \<Rightarrow>
             (case cache w cache_key of
                Some cached_profile \<Rightarrow> (Inr cached_profile, w)
              | None \<Rightarrow>
                  (case fetch_user_row e uid of
                     Inl err \<Rightarrow> (Inl err, w)
                   | Inr None \<Rightarrow> (create_default_user_profile e uid, w)
                   | Inr (Some row) \<Rightarrow>
                       (let aad = (utcnow e - row_created_at row) div 86400;
                            bs = calculate_base_risk_score aad (row_verification_level row)
                                   (row_total_transactions row)
                        in case Money_init (row_total_amount row) ''USD'' 2 of
                             Inl err \<Rightarrow> (Inl err, w)
                           | Inr ta \<Rightarrow>
                               (case Money_init (row_avg_amount row) ''USD'' 2 of
                                  Inl err \<Rightarrow> (Inl err, w)
                                | Inr av \<Rightarrow>
                                    (case UserRiskProfile_init uid bs
                                            (calculate_transaction_history_score
                                               (row_total_transactions row))
                                            (calculate_age_score aad)
                                            (row_verification_level row) 0.0 0.0 (utcnow e)
                                            (row_total_transactions row) ta av aad
                                            (row_failed_attempts_24h row)
                                            (determine_risk_level bs) of
                                       Inl err \<Rightarrow> (Inl err, w)
                                     | Inr profile \<Rightarrow>
                                         (case redis_setex_error e of
                                            Some err \<Rightarrow> (Inl err, w)
                                          | None \<Rightarrow>
                                              (Inr profile,
                                               w\<lparr>cache := (cache w)(cache_key \<mapsto> profile)\<rparr>))))))))"

section \<open>The assessment coordinator\<close>

definition store_assessment :: "env \<Rightarrow> world \<Rightarrow> FraudAssessment \<Rightarrow> error + world" where
  "store_assessment e w a =
     (case db_execute_error e of
        Some err \<Rightarrow> Inl err
      | None \<Rightarrow> Inr (w\<lparr>fraud_assessments := fraud_assessments w @ [a]\<rparr>))"

definition update_user_risk_profile :: "env \<Rightarrow> world \<Rightarrow> string \<Rightarrow> real \<Rightarrow> error + world" where
  "update_user_risk_profile e w uid new_score =
     (case redis_delete_error e of
        Some err \<Rightarrow> Inl err
      | None \<Rightarrow> Inr (w\<lparr>cache := (cache w)(cache_key_of uid := None)\<rparr>))"

definition send_fraud_alert :: "env \<Rightarrow> world \<Rightarrow> FraudAssessment \<Rightarrow> error + world" where
  "send_fraud_alert e w a =
     (case alert_error e of
        Some err \<Rightarrow> Inl err
      | None \<Rightarrow> Inr (w\<lparr>alerts := alerts w @ [a]\<rparr>))"

text \<open>\<^verbatim>\<open>int(x)\<close> on a float truncates towards zero.\<close>

definition py_int :: "real \<Rightarrow> int" where
  "py_int x = (if x \<ge> 0 then \<lfloor>x\<rfloor> else \<lceil>x\<rceil>)"

text \<open>
  The body of the \<^verbatim>\<open>try\<close> block of \<^verbatim>\<open>assess_transaction\<close> after the check for a
  transaction: the assessment or the exception raised, and the world at that moment.
\<close>

definition assess_steps :: "env \<Rightarrow> world \<Rightarrow> Transaction \<Rightarrow> (error + FraudAssessment) \<times> world" where
  "assess_steps e w tx =
     (case get_user_risk_profile e w (tx_user_id tx) of
        (Inl err, w1) \<Rightarrow> (Inl err, w1)
      | (Inr user_profile, w1) \<Rightarrow>
          (let rule_results = execute_fraud_rules e tx user_profile;
               ml = calculate_ml_score e tx user_profile;
               final_score = calculate_final_score rule_results ml;
               lvl = determine_risk_level final_score;
               act = determine_action final_score lvl rule_results
           in case FraudAssessment_init e (tx_user_id tx) (tx_id tx) final_score lvl rule_results
                     ml act (generate_assessment_reason e rule_results ml final_score)
                     (calculate_confidence rule_results ml)
                     ((t_assessed e - t_start e) * 1000) (act = MANUAL_REVIEW) of
                Inl err \<Rightarrow> (Inl err, w1)
              | Inr a \<Rightarrow>
                  (case store_assessment e w1 a of
                     Inl err \<Rightarrow> (Inl err, w1)
                   | Inr w2 \<Rightarrow>
                       (case update_user_risk_profile e w2 (tx_user_id tx) final_score of
                          Inl err \<Rightarrow> (Inl err, w2)
                        | Inr w3 \<Rightarrow>
                            (if lvl = HIGH \<or> lvl = CRITICAL then
                               (case send_fraud_alert e w3 a of
                                  Inl err \<Rightarrow> (Inl err, w3)
                                | Inr w4 \<Rightarrow> (Inr a, w4))
                             else (Inr a, w3))))))"

definition assess_transaction ::
  "env \<Rightarrow> world \<Rightarrow> FraudDetectionRequest \<Rightarrow> FraudDetectionResponse \<times> world" where
  "assess_transaction e w request =
     (let start_time = t_start e;
          cid = ''fraud_'' @ str_int (py_int (t_corr e))
      in case transaction request of
           None \<Rightarrow>
             (\<lparr>success = False, assessment = None, error = Some ''No transaction provided'',
               processing_time_ms = (t_done e - start_time) * 1000, correlation_id = cid\<rparr>, w)
         | Some tx \<Rightarrow>
             (case assess_steps e w tx of
                (Inr a, w') \<Rightarrow>
                  (\<lparr>success = True, assessment = Some a, error = None,
                    processing_time_ms = (t_done e - start_time) * 1000, correlation_id = cid\<rparr>,
                   w')
              | (Inl err, w') \<Rightarrow>
                  (\<lparr>success = False, assessment = None, error = Some (str_error err),
                    processing_time_ms = (t_done e - start_time) * 1000, correlation_id = cid\<rparr>,
                   w')))"

section \<open>A sample run\<close>

text \<open>
  Concrete inputs on which the theorems below are instantiated: a known user with twenty
  transactions, an empty cache, a store and a cache that answer every call, and no model.
\<close>

definition row0 :: user_row where
  "row0 = \<lparr>row_created_at = 1665440000, row_verification_level = ''BASIC'',
            row_total_transactions = 20, row_total_amount = 1000, row_avg_amount = 50,
            row_failed_attempts_24h = 0\<rparr>"

definition env0 :: env where
  "env0 =
     \<lparr>get_transaction_count_in_window = (\<lambda>_ _ _. Inr 1),
      get_transaction_amount_in_window = (\<lambda>_ _ _. Inr 10),
      get_user_typical_locations = (\<lambda>_. Inr []),
      get_user_known_devices = (\<lambda>_. Inr []),
      is_device_blacklisted = (\<lambda>_. Inr False),
      get_user_typical_transaction_hours = (\<lambda>_. Inr []),
      fetch_user_row = (\<lambda>u. if u = ''alice'' then Inr (Some row0) else Inr None),
      ml_fraud_probability = (\<lambda>_ _. None),
      redis_get_error = None, redis_setex_error = None, redis_delete_error = None,
      db_execute_error = None, alert_error = None,
      utcnow = 1700000000, uuid4 = ''a-1'', format_3f = (\<lambda>_. ''0.000''),
      t_start = 1700000000, t_corr = 1700000000, t_assessed = 1700000000.02,
      t_done = 1700000000.03, rule_ms = (\<lambda>_. 1)\<rparr>"

definition world0 :: world where
  "world0 = \<lparr>cache = Map.empty, fraud_assessments = [], alerts = []\<rparr>"

definition tx0 :: Transaction where
  "tx0 =
     \<lparr>tx_id = ''t1'', tx_user_id = ''alice'', tx_type = PAYMENT,
      tx_amount = \<lparr>amount = 2000, currency = ''USD'', precision = 2\<rparr>,
      tx_timestamp = 1700000000,
      device_fingerprint = \<lparr>fingerprint = ''dev1'', user_agent = ''ua'', ip_address = ''10.0.0.1''\<rparr>,
      geolocation = \<lparr>latitude = 40, longitude = -74, country = ''US''\<rparr>\<rparr>"

definition profile0 :: UserRiskProfile where
  "profile0 =
     \<lparr>user_id = ''alice'', base_score = 0.6, transaction_history_score = 0.3, age_score = 0.1,
      verification_level = ''BASIC'', dispute_rate = 0, velocity_score = 0,
      last_updated = 1700000000, total_transactions = 20,
      total_amount = \<lparr>amount = 1000, currency = ''USD'', precision = 2\<rparr>,
      average_transaction_amount = \<lparr>amount = 50, currency = ''USD'', precision = 2\<rparr>,
      account_age_days = 400, failed_attempts_24h = 0, risk_level = HIGH\<rparr>"

definition request0 :: FraudDetectionRequest where
  "request0 = \<lparr>req_user_id = ''alice'', transaction = Some tx0\<rparr>"

text \<open>The same environment with a cache whose \<^verbatim>\<open>delete\<close> raises.\<close>

definition env1 :: env where
  "env1 = env0\<lparr>redis_delete_error := Some (ExternalError ''connection lost'')\<rparr>"

text \<open>The same environment with a store whose insert raises.\<close>

definition env3 :: env where
  "env3 = env0\<lparr>db_execute_error := Some (ExternalError ''insert failed'')\<rparr>"

section \<open>Constructor calls that validate\<close>

lemma velocity_limits_valid:
  "Money_init 10000 ''USD'' 2 = Inr \<lparr>amount = 10000, currency = ''USD'', precision = 2\<rparr> \<and>
   Money_init 50000 ''USD'' 2 = Inr \<lparr>amount = 50000, currency = ''USD'', precision = 2\<rparr>"
  by (simp add: Money_init_def)

lemma error_result_valid:
  "FraudRuleResult_init rname False 0.0 [(''error'', JStr (str_error err))] (Some ms) =
     Inr (error_result rname err ms)"
  by (simp add: FraudRuleResult_init_def error_result_def)

section \<open>Score fusion\<close>

lemma foldl_plus_start: "foldl (+) (a::real) xs = a + sum_list xs"
  by (induction xs arbitrary: a) simp_all

lemma py_sum_sum_list: "py_sum xs = sum_list xs"
  by (simp add: py_sum_def foldl_plus_start)

lemma np_clip_unit: "np_clip x 0 1 = max 0 (min 1 x)"
  by (simp add: np_clip_def min_def max_def)

text \<open>
  Claim C1. For every list of rule results and every optional model score, the final score
  is the clip to \<open>[0,1]\<close> of 0.6 times the sum of all rule scores plus 0.4 times the
  model score when the model score is defined, and the clip to \<open>[0,1]\<close> of the sum of
  all rule scores alone when it is not.
\<close>

theorem C1_score_fusion:
  "calculate_final_score rs ml =
     (case ml of
        Some m \<Rightarrow> max 0 (min 1 (0.6 * sum_list (map score rs) + 0.4 * m))
      | None \<Rightarrow> max 0 (min 1 (sum_list (map score rs))))"
  by (simp add: calculate_final_score_def py_sum_sum_list np_clip_unit mult.commute
      split: option.split)

theorem C1_score_fusion_witness:
  "calculate_final_score
     [\<lparr>rule_name = ''VELOCITY_CHECK'', triggered = True, score = 0.3, details = [],
       execution_time_ms = 1\<rparr>] (Some 0.95) = 0.56"
  using C1_score_fusion [of "[\<lparr>rule_name = ''VELOCITY_CHECK'', triggered = True,
       score = 0.3, details = [], execution_time_ms = 1\<rparr>]" "Some 0.95"]
  by simp

section \<open>Risk level\<close>

text \<open>
  Claim C4. For every final score \<open>s\<close> in \<open>[0,1]\<close> the risk level is the unique band
  that contains \<open>s\<close>: LOW exactly when \<open>s < 0.3\<close>, MEDIUM exactly when
  \<open>0.3 \<le> s < 0.6\<close>, HIGH exactly when \<open>0.6 \<le> s < 0.8\<close>, CRITICAL exactly when
  \<open>s \<ge> 0.8\<close>.
\<close>

theorem C4_risk_level:
  assumes "0 \<le> s" and "s \<le> 1"
  shows "(determine_risk_level s = LOW \<longleftrightarrow> s < 0.3) \<and>
         (determine_risk_level s = MEDIUM \<longleftrightarrow> 0.3 \<le> s \<and> s < 0.6) \<and>
         (determine_risk_level s = HIGH \<longleftrightarrow> 0.6 \<le> s \<and> s < 0.8) \<and>
         (determine_risk_level s = CRITICAL \<longleftrightarrow> s \<ge> 0.8)"
  by (simp add: determine_risk_level_def)

theorem C4_risk_level_witness:
  "determine_risk_level 0.45 = MEDIUM \<and> determine_risk_level 0.8 = CRITICAL
   \<and> determine_risk_level 0 = LOW \<and> determine_risk_level 0.6 = HIGH"
  using C4_risk_level [of "0.45"] C4_risk_level [of "0.8"] C4_risk_level [of 0]
    C4_risk_level [of "0.6"]
  by simp

section \<open>Confidence\<close>

lemma confidence_cases:
  "calculate_confidence rs ml =
     (let t = sum_list (map score (filter triggered rs))
      in if rs = [] \<and> ml = None then 0
         else (case ml of
                 None \<Rightarrow> if t > 0 then t else 0.5
               | Some m \<Rightarrow>
                   if t > 0 then ((t + m) / 2) * (1 - (max t m - min t m)) else m))"
  by (simp add: calculate_confidence_def py_sum_sum_list py_sum_def Let_def split: option.split)

lemma prod_unit: "0 \<le> (t::real) \<Longrightarrow> t \<le> 1 \<Longrightarrow> 0 \<le> m \<Longrightarrow> m \<le> 1 \<Longrightarrow>
  0 \<le> ((t + m) / 2) * (1 - (max t m - min t m)) \<and> ((t + m) / 2) * (1 - (max t m - min t m)) \<le> 1"
proof -
  assume a: "0 \<le> t" "t \<le> 1" "0 \<le> m" "m \<le> 1"
  let ?mean = "(t + m) / 2" and ?ag = "1 - (max t m - min t m)"
  have m0: "0 \<le> ?mean" and m1: "?mean \<le> 1" using a by simp_all
  have a0: "0 \<le> ?ag" and a1: "?ag \<le> 1" using a by (simp_all add: max_def min_def)
  have "?mean * ?ag \<le> 1 * 1" using m0 m1 a0 a1 by (intro mult_mono) simp_all
  moreover have "0 \<le> ?mean * ?ag" using m0 a0 by simp
  ultimately show ?thesis by simp
qed

text \<open>
  Claim C6, as the specification states it, gives confidence 0.5 whenever the list of
  indicators is empty. The function returns 0.0 first when there is no rule result and no
  model score, so the claim fails at the empty list with no model score.
\<close>

theorem C6_confidence_counterexample:
  "calculate_confidence [] None = 0 \<and> calculate_confidence [] None \<noteq> 0.5"
  by (simp add: calculate_confidence_def)

text \<open>
  Claim C6, amended. The confidence is 0.0 when there is no rule result and no model score.
  Otherwise, with \<open>t\<close> the sum of the scores of the triggered rules (an indicator only
  when \<open>t > 0\<close>) and the model score (an indicator only when defined), it is 0.5 when
  there is no indicator, the single indicator when there is one, and the mean of the two
  times \<open>1 - (max - min)\<close> when there are two. The product is not clipped; it lies in
  \<open>[0,1]\<close>, and so equals its clip, whenever both indicators lie in \<open>[0,1]\<close>.
\<close>

theorem C6_confidence_amended:
  "calculate_confidence rs ml =
     (let t = sum_list (map score (filter triggered rs))
      in if rs = [] \<and> ml = None then 0
         else (case ml of
                 None \<Rightarrow> if t > 0 then t else 0.5
               | Some m \<Rightarrow>
                   if t > 0 then ((t + m) / 2) * (1 - (max t m - min t m)) else m))
   \<and> (\<forall>m. ml = Some m \<longrightarrow> 0 < sum_list (map score (filter triggered rs)) \<longrightarrow>
          sum_list (map score (filter triggered rs)) \<le> 1 \<longrightarrow> 0 \<le> m \<longrightarrow> m \<le> 1 \<longrightarrow>
          calculate_confidence rs ml = max 0 (min 1 (calculate_confidence rs ml)))"
proof (intro conjI allI impI)
  show "calculate_confidence rs ml =
     (let t = sum_list (map score (filter triggered rs))
      in if rs = [] \<and> ml = None then 0
         else (case ml of
                 None \<Rightarrow> if t > 0 then t else 0.5
               | Some m \<Rightarrow>
                   if t > 0 then ((t + m) / 2) * (1 - (max t m - min t m)) else m))"
    by (rule confidence_cases)
next
  fix m
  define t where "t = sum_list (map score (filter triggered rs))"
  assume h: "ml = Some m" "0 < sum_list (map score (filter triggered rs))"
    "sum_list (map score (filter triggered rs)) \<le> 1" "0 \<le> m" "m \<le> 1"
  then have "calculate_confidence rs ml = ((t + m) / 2) * (1 - (max t m - min t m))"
    by (simp add: confidence_cases t_def Let_def)
  moreover have "0 \<le> ((t + m) / 2) * (1 - (max t m - min t m)) \<and>
                 ((t + m) / 2) * (1 - (max t m - min t m)) \<le> 1"
    using h by (intro prod_unit) (simp_all add: t_def)
  ultimately show "calculate_confidence rs ml = max 0 (min 1 (calculate_confidence rs ml))"
    by simp
qed

theorem C6_confidence_amended_witness:
  "calculate_confidence
     [\<lparr>rule_name = ''VELOCITY_CHECK'', triggered = True, score = 0.3, details = [],
       execution_time_ms = 1\<rparr>] (Some 0.5) = 0.32
   \<and> calculate_confidence
     [\<lparr>rule_name = ''VELOCITY_CHECK'', triggered = True, score = 0.3, details = [],
       execution_time_ms = 1\<rparr>] None = 0.3
   \<and> calculate_confidence
     [\<lparr>rule_name = ''VELOCITY_CHECK'', triggered = False, score = 0, details = [],
       execution_time_ms = 1\<rparr>] None = 0.5"
  using C6_confidence_amended [of "[\<lparr>rule_name = ''VELOCITY_CHECK'', triggered = True,
       score = 0.3, details = [], execution_time_ms = 1\<rparr>]" "Some 0.5"]
    C6_confidence_amended [of "[\<lparr>rule_name = ''VELOCITY_CHECK'', triggered = True,
       score = 0.3, details = [], execution_time_ms = 1\<rparr>]" None]
    C6_confidence_amended [of "[\<lparr>rule_name = ''VELOCITY_CHECK'', triggered = False,
       score = 0, details = [], execution_time_ms = 1\<rparr>]" None]
  by simp

section \<open>Bounds on what the evaluators compute\<close>

lemma construct_result_raises: "\<exists>err. construct_result x = Inl err"
  by (cases x) (simp_all add: construct_result_def FraudRuleResult_init_def)

lemma construct_result_Inr:
  "construct_result x = Inr r \<Longrightarrow>
     \<exists>f. x = Inr f \<and> score r = f_score f \<and> triggered r = f_triggered f \<and>
         details r = f_details f \<and> rule_name r = f_rule_name f"
  by (cases x) (simp_all add: construct_result_def FraudRuleResult_init_def)

lemma scaled_bound:
  "0 \<le> (r::real) \<Longrightarrow> r \<le> b \<Longrightarrow> 0 \<le> w \<Longrightarrow> 0 \<le> r * w \<and> r * w \<le> b * w"
  by (simp add: mult_right_mono)

lemma velocity_loop_bound:
  "velocity_loop e tx vcs st = Inr st' \<Longrightarrow> 0 \<le> fst (snd st) \<and> fst (snd st) \<le> 0.9 \<Longrightarrow>
     0 \<le> fst (snd st') \<and> fst (snd st') \<le> 0.9"
proof (induction vcs arbitrary: st)
  case Nil
  then show ?case by simp
next
  case (Cons pv rest)
  obtain period vc where pv: "pv = (period, vc)" by (cases pv)
  obtain trig sc det where st: "st = (trig, sc, det)" by (cases st) auto
  from Cons.prems(1) obtain count where
    c: "get_transaction_count_in_window e (tx_user_id tx) (window_minutes vc) (tx_timestamp tx)
          = Inr count"
    unfolding pv st by (auto split: sum.splits)
  define st1 where "st1 =
    (if count > max_transactions vc then
       (True, max sc 0.8,
        dict_set det period
          (JDict [(''count'', JInt count), (''limit'', JInt (max_transactions vc)),
                  (''exceeded'', JBool True)]))
     else (trig, sc, det))"
  define st2 where "st2 = (\<lambda>t (cap::Money).
    (if t > amount cap then
       (True, max (fst (snd st1)) 0.9,
        dict_set (snd (snd st1)) (period @ ''_amount'')
          (JDict [(''total'', JFloat t), (''limit'', JFloat (amount cap)),
                  (''exceeded'', JBool True)]))
     else st1))"
  have step: "velocity_loop e tx (pv # rest) st =
      (case max_amount vc of
         None \<Rightarrow> velocity_loop e tx rest st1
       | Some cap \<Rightarrow>
           (case get_transaction_amount_in_window e (tx_user_id tx) (window_minutes vc)
                   (tx_timestamp tx) of
              Inl err \<Rightarrow> Inl err
            | Inr t \<Rightarrow> velocity_loop e tx rest (st2 t cap)))"
    by (simp add: pv st c st1_def st2_def Let_def split: option.split sum.split)
  have inv1: "0 \<le> fst (snd st1) \<and> fst (snd st1) \<le> 0.9"
    using Cons.prems(2) by (simp add: st st1_def max_def)
  have inv2: "0 \<le> fst (snd (st2 t cap)) \<and> fst (snd (st2 t cap)) \<le> 0.9" for t cap
    using inv1 by (simp add: st2_def max_def)
  show ?case
  proof (cases "max_amount vc")
    case None
    with Cons.prems(1) step have "velocity_loop e tx rest st1 = Inr st'" by simp
    from Cons.IH [OF this inv1] show ?thesis .
  next
    case (Some cap)
    with Cons.prems(1) step obtain t where
      "velocity_loop e tx rest (st2 t cap) = Inr st'"
      by (auto split: sum.splits)
    from Cons.IH [OF this inv2] show ?thesis .
  qed
qed

lemma velocity_fields_bound:
  assumes "velocity_rules_fields e tx cfg = Inr f" and "0 \<le> cfg_weight cfg"
  shows "0 \<le> f_score f \<and> f_score f \<le> 0.9 * cfg_weight cfg"
proof -
  from assms(1) obtain trig sc det where
    l: "velocity_loop e tx velocity_checks (False, 0.0, []) = Inr (trig, sc, det)"
    and f: "f_score f = sc * cfg_weight cfg"
    by (auto simp: velocity_rules_fields_def split: sum.splits prod.splits)
  from velocity_loop_bound [OF l] have "0 \<le> sc \<and> sc \<le> 0.9" by simp
  with f assms(2) scaled_bound [of sc "0.9" "cfg_weight cfg"] show ?thesis by simp
qed

lemma amount_fields_eq:
  "amount_anomaly_fields tx p cfg =
     (let avg = amount (average_transaction_amount p); cur = amount (tx_amount tx);
          d = \<bar>cur - avg\<bar> / avg
      in if total_transactions p > 0 \<and> avg > 0 then
           \<lparr>f_rule_name = cfg_name cfg, f_triggered = (d > 3),
            f_score = (if d > 3 then min 0.8 (d / 5) else 0) * cfg_weight cfg,
            f_details = [(''current_amount'', JFloat cur), (''average_amount'', JFloat avg),
                         (''z_score'', JFloat d), (''threshold'', JFloat 3)]\<rparr>
         else \<lparr>f_rule_name = cfg_name cfg, f_triggered = False, f_score = 0, f_details = []\<rparr>)"
  by (simp add: amount_anomaly_fields_def Let_def)

lemma amount_fields_bound:
  assumes "0 \<le> cfg_weight cfg"
  shows "0 \<le> f_score (amount_anomaly_fields tx p cfg) \<and>
         f_score (amount_anomaly_fields tx p cfg) \<le> 0.8 * cfg_weight cfg"
proof (cases "total_transactions p > 0 \<and> amount (average_transaction_amount p) > 0")
  case True
  define r where "r =
    (let d = \<bar>amount (tx_amount tx) - amount (average_transaction_amount p)\<bar>
               / amount (average_transaction_amount p)
     in if d > 3 then min 0.8 (d / 5) else 0)"
  have fs: "f_score (amount_anomaly_fields tx p cfg) = r * cfg_weight cfg"
    using True by (simp add: amount_fields_eq Let_def r_def)
  have "0 \<le> r \<and> r \<le> 0.8"
    by (simp add: r_def Let_def min_def)
  with scaled_bound [of r "0.8" "cfg_weight cfg"] assms fs show ?thesis by simp
next
  case False
  then have "f_score (amount_anomaly_fields tx p cfg) = 0"
    by (auto simp: amount_fields_eq Let_def)
  then show ?thesis using assms by simp
qed

lemma geolocation_fields_bound:
  assumes "geolocation_anomaly_fields e tx p cfg = Inr f" and "0 \<le> cfg_weight cfg"
  shows "0 \<le> f_score f \<and> f_score f \<le> 0.7 * cfg_weight cfg"
proof -
  from assms(1) obtain tl where tl: "get_user_typical_locations e (tx_user_id tx) = Inr tl"
    by (auto simp: geolocation_anomaly_fields_def split: sum.splits)
  show ?thesis
  proof (cases "tl = []")
    case True
    with assms(1) tl have "f_score f = 0"
      by (auto simp: geolocation_anomaly_fields_def)
    then show ?thesis using assms(2) by simp
  next
    case False
    with assms(1) tl obtain md where
      md: "min_distance_loop (geolocation tx) tl None = Inr md"
      by (auto simp: geolocation_anomaly_fields_def split: sum.splits)
    define ts where "ts =
      (case md of
         None \<Rightarrow> (True, 0.7::real)
       | Some d \<Rightarrow> if d > 1000 then (True, min 0.7 (d / 5000)) else (False, 0.0))"
    from assms(1) tl False md have fs: "f_score f = snd ts * cfg_weight cfg"
      by (auto simp: geolocation_anomaly_fields_def Let_def ts_def)
    have "0 \<le> snd ts \<and> snd ts \<le> 0.7"
      by (simp add: ts_def min_def split: option.split)
    with scaled_bound [of "snd ts" "0.7" "cfg_weight cfg"] assms(2) fs show ?thesis by simp
  qed
qed

lemma device_fields_bound:
  assumes "device_fingerprint_fields e tx p cfg = Inr f" and "0 \<le> cfg_weight cfg"
  shows "0 \<le> f_score f \<and> f_score f \<le> 1.0 * cfg_weight cfg"
proof -
  from assms(1) have
    "f_score f = cfg_weight cfg \<or> f_score f = 0.5 * cfg_weight cfg \<or> f_score f = 0"
    by (auto simp: device_fingerprint_fields_def split: sum.splits if_splits)
  then show ?thesis using assms(2) by auto
qed

lemma time_fields_bound:
  assumes "time_pattern_fields e tx p cfg = Inr f" and "0 \<le> cfg_weight cfg"
  shows "0 \<le> f_score f \<and> f_score f \<le> 0.4 * cfg_weight cfg"
proof -
  from assms(1) obtain th where
    th: "get_user_typical_transaction_hours e (tx_user_id tx) = Inr th"
    by (auto simp: time_pattern_fields_def split: sum.splits)
  define hf where "hf = (case map_of th (str_nat (hour (tx_timestamp tx))) of
                           Some f \<Rightarrow> f | None \<Rightarrow> 0)"
  define tf where "tf = py_sum (map snd th)"
  have "f_score f = 0.4 * cfg_weight cfg \<or> f_score f = 0"
  proof (cases "th \<noteq> [] \<and> tf > 0 \<and> hf / tf < 0.05")
    case True
    with assms(1) th have "f_score f = 0.4 * cfg_weight cfg"
      by (simp add: time_pattern_fields_def Let_def hf_def tf_def) auto
    then show ?thesis by simp
  next
    case False
    then consider "th = []" | "th \<noteq> []" "\<not> tf > 0"
      | "th \<noteq> []" "tf > 0" "\<not> hf / tf < 0.05" by blast
    then have "f_score f = 0"
    proof cases
      case 1
      with assms(1) th show ?thesis
        by (simp add: time_pattern_fields_def Let_def) auto
    next
      case 2
      with assms(1) th show ?thesis
        by (simp add: time_pattern_fields_def Let_def hf_def tf_def) auto
    next
      case 3
      with assms(1) th show ?thesis
        by (simp add: time_pattern_fields_def Let_def hf_def tf_def) auto
    qed
    then show ?thesis by simp
  qed
  then show ?thesis using assms(2) by auto
qed

section \<open>Properties of the rule engine\<close>

lemma run_rule_constructs: "run_rule e tx p n cfg = Some x \<Longrightarrow> \<exists>y. x = construct_result y"
  by (auto simp: run_rule_def check_velocity_rules_def check_amount_anomaly_def
      check_geolocation_anomaly_def check_device_fingerprint_def check_time_pattern_def
      split: if_splits)

lemma run_rule_raises:
  assumes "run_rule e tx p n cfg = Some x"
  shows "\<exists>err. x = Inl err"
proof -
  from run_rule_constructs [OF assms] obtain y where "x = construct_result y" by blast
  with construct_result_raises [of y] show ?thesis by simp
qed

lemma loop_all:
  assumes "\<And>n cfg x. (n, cfg) \<in> set cat \<Longrightarrow> ev n cfg = Some x \<Longrightarrow> P (rule_outcome n (ms n) x)"
  shows "\<forall>r \<in> set (execute_rules_loop ev ms cat). P r"
  using assms
proof (induction cat)
  case Nil
  then show ?case by simp
next
  case (Cons a cat)
  obtain n cfg where a: "a = (n, cfg)" by (cases a)
  from Cons.prems have tl: "\<And>n cfg x. (n, cfg) \<in> set cat \<Longrightarrow> ev n cfg = Some x \<Longrightarrow>
      P (rule_outcome n (ms n) x)" by auto
  from Cons.IH [OF tl] have ih: "\<forall>r \<in> set (execute_rules_loop ev ms cat). P r" .
  show ?case
  proof (cases "cfg_enabled cfg")
    case False
    with ih show ?thesis by (simp add: a)
  next
    case True
    show ?thesis
    proof (cases "ev n cfg")
      case None
      with True ih show ?thesis by (simp add: a)
    next
      case (Some x)
      from Cons.prems [of n cfg x] Some have "P (rule_outcome n (ms n) x)" by (simp add: a)
      with True Some ih show ?thesis by (simp add: a)
    qed
  qed
qed

lemma catalog_weights:
  "map (\<lambda>nc. (fst nc, cfg_weight (snd nc))) fraud_rules =
     [(''velocity_check'', 0.3), (''amount_anomaly'', 0.25), (''geolocation_anomaly'', 0.2),
      (''device_fingerprint'', 0.15), (''time_pattern'', 0.1)]"
  by (simp add: fraud_rules_def)

lemma weights_catalog:
  assumes "(n, cfg) \<in> set fraud_rules"
  shows "(n = ''velocity_check'' \<and> cfg_weight cfg = 0.3) \<or>
     (n = ''amount_anomaly'' \<and> cfg_weight cfg = 0.25) \<or>
     (n = ''geolocation_anomaly'' \<and> cfg_weight cfg = 0.2) \<or>
     (n = ''device_fingerprint'' \<and> cfg_weight cfg = 0.15) \<or>
     (n = ''time_pattern'' \<and> cfg_weight cfg = 0.1)"
proof -
  from assms have "(\<lambda>nc. (fst nc, cfg_weight (snd nc))) (n, cfg)
      \<in> set (map (\<lambda>nc. (fst nc, cfg_weight (snd nc))) fraud_rules)"
    unfolding set_map by (rule imageI)
  then show ?thesis unfolding catalog_weights by simp
qed

lemma run_rule_score:
  assumes "(n, cfg) \<in> set fraud_rules" and "run_rule e tx p n cfg = Some (Inr r)"
  shows "0 \<le> score r \<and> score r \<le> 0.27"
proof -
  from weights_catalog [OF assms(1)] consider
    (v) "n = ''velocity_check''" "cfg_weight cfg = 0.3"
    | (a) "n = ''amount_anomaly''" "cfg_weight cfg = 0.25"
    | (g) "n = ''geolocation_anomaly''" "cfg_weight cfg = 0.2"
    | (d) "n = ''device_fingerprint''" "cfg_weight cfg = 0.15"
    | (t) "n = ''time_pattern''" "cfg_weight cfg = 0.1"
    by (elim disjE conjE) simp_all
  then show ?thesis
  proof cases
    case v
    with assms(2) have "construct_result (velocity_rules_fields e tx cfg) = Inr r"
      by (simp add: run_rule_def check_velocity_rules_def)
    from construct_result_Inr [OF this] obtain f where
      "velocity_rules_fields e tx cfg = Inr f" "score r = f_score f" by blast
    with velocity_fields_bound [of e tx cfg f] v show ?thesis by simp
  next
    case a
    with assms(2) have
      "construct_result (Inr (amount_anomaly_fields tx p cfg)) = Inr r"
      by (simp add: run_rule_def check_amount_anomaly_def)
    from construct_result_Inr [OF this] have "score r = f_score (amount_anomaly_fields tx p cfg)"
      by auto
    with amount_fields_bound [of cfg tx p] a show ?thesis by simp
  next
    case g
    with assms(2) have "construct_result (geolocation_anomaly_fields e tx p cfg) = Inr r"
      by (simp add: run_rule_def check_geolocation_anomaly_def)
    from construct_result_Inr [OF this] obtain f where
      "geolocation_anomaly_fields e tx p cfg = Inr f" "score r = f_score f" by blast
    with geolocation_fields_bound [of e tx p cfg f] g show ?thesis by simp
  next
    case d
    with assms(2) have "construct_result (device_fingerprint_fields e tx p cfg) = Inr r"
      by (simp add: run_rule_def check_device_fingerprint_def)
    from construct_result_Inr [OF this] obtain f where
      "device_fingerprint_fields e tx p cfg = Inr f" "score r = f_score f" by blast
    with device_fields_bound [of e tx p cfg f] d show ?thesis by simp
  next
    case t
    with assms(2) have "construct_result (time_pattern_fields e tx p cfg) = Inr r"
      by (simp add: run_rule_def check_time_pattern_def)
    from construct_result_Inr [OF this] obtain f where
      "time_pattern_fields e tx p cfg = Inr f" "score r = f_score f" by blast
    with time_fields_bound [of e tx p cfg f] t show ?thesis by simp
  qed
qed

lemma results_score_bound:
  "\<forall>r \<in> set (execute_fraud_rules e tx p). 0 \<le> score r \<and> score r \<le> 0.27"
  unfolding execute_fraud_rules_def
proof (rule loop_all)
  fix n cfg x
  assume h: "(n, cfg) \<in> set fraud_rules" "run_rule e tx p n cfg = Some x"
  show "0 \<le> score (rule_outcome n (rule_ms e n) x) \<and> score (rule_outcome n (rule_ms e n) x) \<le> 0.27"
  proof (cases x)
    case (Inl err)
    then show ?thesis by (simp add: rule_outcome_def error_result_def)
  next
    case (Inr r)
    with run_rule_score [OF h(1)] h(2) show ?thesis by (simp add: rule_outcome_def)
  qed
qed

lemma results_all_errors:
  "\<forall>r \<in> set (execute_fraud_rules e tx p). \<not> triggered r \<and> score r = 0"
  unfolding execute_fraud_rules_def
proof (rule loop_all)
  fix n cfg x
  assume "run_rule e tx p n cfg = Some x"
  from run_rule_raises [OF this] obtain err where "x = Inl err" by blast
  then show "\<not> triggered (rule_outcome n (rule_ms e n) x) \<and> score (rule_outcome n (rule_ms e n) x) = 0"
    by (simp add: rule_outcome_def error_result_def)
qed

lemma no_manual_review:
  "determine_action s lvl (execute_fraud_rules e tx p) \<noteq> MANUAL_REVIEW"
proof -
  have "\<not> list_ex (\<lambda>r. triggered r \<and> score r > 0.5) (execute_fraud_rules e tx p)"
    using results_score_bound [of e tx p] by (fastforce simp: list_ex_iff)
  then show ?thesis by (simp add: determine_action_def)
qed

section \<open>Properties of the coordinator\<close>

lemma determine_action_cases:
  "(determine_action s lvl rs = REJECT \<longleftrightarrow> s \<ge> 0.8) \<and>
   (determine_action s lvl rs = HOLD \<longleftrightarrow> 0.6 \<le> s \<and> s < 0.8) \<and>
   (0.3 \<le> s \<and> s < 0.6 \<longrightarrow>
      determine_action s lvl rs =
        (if \<exists>r \<in> set rs. triggered r \<and> score r > 0.5 then MANUAL_REVIEW else APPROVE)) \<and>
   (s < 0.3 \<longrightarrow> determine_action s lvl rs = APPROVE)"
  by (simp add: determine_action_def list_ex_iff)

lemma get_profile_frame:
  "get_user_risk_profile e w uid = (x, w1) \<Longrightarrow>
     fraud_assessments w1 = fraud_assessments w \<and> alerts w1 = alerts w"
  by (auto simp: get_user_risk_profile_def Let_def
      split: option.splits sum.splits)

lemma FraudAssessment_init_Inr:
  "FraudAssessment_init e uid tid s lvl rs ml act rsn conf ms rmr = Inr a \<Longrightarrow>
     fa_score a = s \<and> fa_risk_level a = lvl \<and> rules a = rs \<and> ml_score a = ml \<and>
     action a = act \<and> confidence a = conf \<and> requires_manual_review a = rmr \<and>
     fa_user_id a = uid \<and> transaction_id a = Some tid"
  by (auto simp: FraudAssessment_init_def Let_def split: if_splits)

lemma assess_steps_Inr:
  assumes "assess_steps e w tx = (Inr a, w')"
  shows "\<exists>prof w1. get_user_risk_profile e w (tx_user_id tx) = (Inr prof, w1) \<and>
           rules a = execute_fraud_rules e tx prof \<and>
           ml_score a = calculate_ml_score e tx prof \<and>
           fa_score a = calculate_final_score (rules a) (ml_score a) \<and>
           fa_risk_level a = determine_risk_level (fa_score a) \<and>
           action a = determine_action (fa_score a) (fa_risk_level a) (rules a) \<and>
           confidence a = calculate_confidence (rules a) (ml_score a) \<and>
           requires_manual_review a = (action a = MANUAL_REVIEW)"
proof -
  obtain x w1 where g: "get_user_risk_profile e w (tx_user_id tx) = (x, w1)"
    by (cases "get_user_risk_profile e w (tx_user_id tx)")
  from assms g obtain prof where x: "x = Inr prof"
    by (cases x) (simp_all add: assess_steps_def)
  define rs where "rs = execute_fraud_rules e tx prof"
  define ml where "ml = calculate_ml_score e tx prof"
  define fs where "fs = calculate_final_score rs ml"
  define lvl where "lvl = determine_risk_level fs"
  define act where "act = determine_action fs lvl rs"
  define init where "init = FraudAssessment_init e (tx_user_id tx) (tx_id tx) fs lvl rs
                     ml act (generate_assessment_reason e rs ml fs)
                     (calculate_confidence rs ml)
                     ((t_assessed e - t_start e) * 1000) (act = MANUAL_REVIEW)"
  from assms g x have "init = Inr a"
    by (auto simp: assess_steps_def Let_def init_def act_def lvl_def fs_def ml_def rs_def
        split: sum.splits if_splits)
  from FraudAssessment_init_Inr [OF this [unfolded init_def]] g x
  show ?thesis by (simp add: rs_def ml_def fs_def lvl_def act_def)
qed

lemma np_clip_unit_interval: "unit_interval (np_clip x 0 1)"
  by (simp add: unit_interval_def np_clip_def min_def max_def)

lemma final_score_unit: "unit_interval (calculate_final_score rs ml)"
  by (simp add: calculate_final_score_def Let_def np_clip_unit_interval)

lemma ml_score_unit: "calculate_ml_score e tx p = Some m \<Longrightarrow> unit_interval m"
  by (auto simp: calculate_ml_score_def np_clip_unit_interval split: option.splits)

lemma confidence_untriggered:
  assumes "\<forall>r \<in> set rs. \<not> triggered r"
  shows "calculate_confidence rs ml =
           (if rs = [] \<and> ml = None then 0 else case ml of None \<Rightarrow> 0.5 | Some m \<Rightarrow> m)"
proof -
  from assms have "filter triggered rs = []" by (simp add: filter_empty_conv)
  then show ?thesis
    by (simp add: calculate_confidence_def py_sum_def split: option.split)
qed

lemma confidence_unit:
  assumes "\<forall>r \<in> set rs. \<not> triggered r" and "\<And>m. ml = Some m \<Longrightarrow> unit_interval m"
  shows "unit_interval (calculate_confidence rs ml)"
  using assms(2)
  by (cases ml) (simp_all add: confidence_untriggered [OF assms(1)] unit_interval_def)

lemma assessment_valid:
  assumes "rs = execute_fraud_rules e tx prof" and "ml = calculate_ml_score e tx prof"
  shows "\<exists>a. FraudAssessment_init e uid tid (calculate_final_score rs ml) lvl rs ml act rsn
               (calculate_confidence rs ml) ms rmr = Inr a"
proof -
  have t: "\<forall>r \<in> set rs. \<not> triggered r"
    using results_all_errors [of e tx prof] assms(1) by simp
  have m: "\<And>m. ml = Some m \<Longrightarrow> unit_interval m"
    using ml_score_unit [of e tx prof] assms(2) by simp
  have c: "unit_interval (calculate_confidence rs ml)"
    by (rule confidence_unit [OF t m])
  show ?thesis
    using final_score_unit [of rs ml] c m
    by (cases ml) (simp_all add: FraudAssessment_init_def Let_def)
qed

lemma assess_steps_profile_fails:
  "get_user_risk_profile e w (tx_user_id tx) = (Inl err, w1) \<Longrightarrow>
     assess_steps e w tx = (Inl err, w1)"
  by (simp add: assess_steps_def)

lemma assess_steps_outcome:
  assumes g: "get_user_risk_profile e w (tx_user_id tx) = (Inr prof, w1)"
  shows "\<exists>a. rules a = execute_fraud_rules e tx prof \<and>
           assess_steps e w tx =
             (case db_execute_error e of
                Some err \<Rightarrow> (Inl err, w1)
              | None \<Rightarrow>
                  (case redis_delete_error e of
                     Some err \<Rightarrow> (Inl err, w1\<lparr>fraud_assessments := fraud_assessments w1 @ [a]\<rparr>)
                   | None \<Rightarrow>
                       (if fa_risk_level a = HIGH \<or> fa_risk_level a = CRITICAL then
                          (case alert_error e of
                             Some err \<Rightarrow>
                               (Inl err,
                                w1\<lparr>fraud_assessments := fraud_assessments w1 @ [a],
                                   cache := (cache w1)(cache_key_of (tx_user_id tx) := None)\<rparr>)
                           | None \<Rightarrow>
                               (Inr a,
                                w1\<lparr>fraud_assessments := fraud_assessments w1 @ [a],
                                   cache := (cache w1)(cache_key_of (tx_user_id tx) := None),
                                   alerts := alerts w1 @ [a]\<rparr>))
                        else
                          (Inr a,
                           w1\<lparr>fraud_assessments := fraud_assessments w1 @ [a],
                              cache := (cache w1)(cache_key_of (tx_user_id tx) := None)\<rparr>))))"
proof -
  define rs where "rs = execute_fraud_rules e tx prof"
  define ml where "ml = calculate_ml_score e tx prof"
  define fs where "fs = calculate_final_score rs ml"
  define lvl where "lvl = determine_risk_level fs"
  define act where "act = determine_action fs lvl rs"
  from assessment_valid [OF rs_def ml_def] obtain a where
    a: "FraudAssessment_init e (tx_user_id tx) (tx_id tx) fs lvl rs
          ml act (generate_assessment_reason e rs ml fs)
          (calculate_confidence rs ml)
          ((t_assessed e - t_start e) * 1000) (act = MANUAL_REVIEW) = Inr a"
    unfolding fs_def by blast
  from FraudAssessment_init_Inr [OF a] have f: "fa_risk_level a = lvl" "rules a = rs" by simp_all
  have "assess_steps e w tx =
             (case db_execute_error e of
                Some err \<Rightarrow> (Inl err, w1)
              | None \<Rightarrow>
                  (case redis_delete_error e of
                     Some err \<Rightarrow> (Inl err, w1\<lparr>fraud_assessments := fraud_assessments w1 @ [a]\<rparr>)
                   | None \<Rightarrow>
                       (if lvl = HIGH \<or> lvl = CRITICAL then
                          (case alert_error e of
                             Some err \<Rightarrow>
                               (Inl err,
                                w1\<lparr>fraud_assessments := fraud_assessments w1 @ [a],
                                   cache := (cache w1)(cache_key_of (tx_user_id tx) := None)\<rparr>)
                           | None \<Rightarrow>
                               (Inr a,
                                w1\<lparr>fraud_assessments := fraud_assessments w1 @ [a],
                                   cache := (cache w1)(cache_key_of (tx_user_id tx) := None),
                                   alerts := alerts w1 @ [a]\<rparr>))
                        else
                          (Inr a,
                           w1\<lparr>fraud_assessments := fraud_assessments w1 @ [a],
                              cache := (cache w1)(cache_key_of (tx_user_id tx) := None)\<rparr>))))"
    using g a [unfolded act_def lvl_def fs_def ml_def rs_def]
    by (simp add: assess_steps_def Let_def store_assessment_def update_user_risk_profile_def
        send_fraud_alert_def lvl_def fs_def ml_def rs_def split: option.split)
  with f show ?thesis unfolding rs_def by (intro exI [of _ a]) simp
qed

lemma loop_map:
  assumes "\<And>n cfg. (n, cfg) \<in> set cat \<Longrightarrow> cfg_enabled cfg \<and> (\<exists>x. ev n cfg = Some x)"
  shows "execute_rules_loop ev ms cat =
           map (\<lambda>nc. rule_outcome (fst nc) (ms (fst nc)) (the (ev (fst nc) (snd nc)))) cat"
  using assms
proof (induction cat)
  case Nil
  then show ?case by simp
next
  case (Cons a cat)
  obtain n cfg where a: "a = (n, cfg)" by (cases a)
  from Cons.prems [of n cfg] obtain x where x: "cfg_enabled cfg" "ev n cfg = Some x"
    by (auto simp: a)
  from Cons.prems have "\<And>n cfg. (n, cfg) \<in> set cat \<Longrightarrow> cfg_enabled cfg \<and> (\<exists>x. ev n cfg = Some x)"
    by auto
  from Cons.IH [OF this] x show ?case by (simp add: a)
qed

lemma catalog_enabled:
  "map (\<lambda>nc. (fst nc, cfg_enabled (snd nc))) fraud_rules =
     [(''velocity_check'', True), (''amount_anomaly'', True), (''geolocation_anomaly'', True),
      (''device_fingerprint'', True), (''time_pattern'', True)]"
  by (simp add: fraud_rules_def)

lemma catalog_runs:
  assumes "(n, cfg) \<in> set fraud_rules"
  shows "cfg_enabled cfg \<and> (\<exists>x. run_rule e tx p n cfg = Some x)"
proof -
  from assms have "(fst (n, cfg), cfg_enabled (snd (n, cfg)))
      \<in> set (map (\<lambda>nc. (fst nc, cfg_enabled (snd nc))) fraud_rules)"
    unfolding set_map by (rule imageI)
  then have "cfg_enabled cfg \<and>
    (n = ''velocity_check'' \<or> n = ''amount_anomaly'' \<or> n = ''geolocation_anomaly'' \<or>
     n = ''device_fingerprint'' \<or> n = ''time_pattern'')"
    unfolding catalog_enabled by auto
  then show ?thesis by (auto simp: run_rule_def)
qed

lemma execute_fraud_rules_map:
  "execute_fraud_rules e tx p =
     map (\<lambda>nc. rule_outcome (fst nc) (rule_ms e (fst nc)) (the (run_rule e tx p (fst nc) (snd nc))))
       fraud_rules"
  unfolding execute_fraud_rules_def by (rule loop_map) (rule catalog_runs)

lemma assess_transaction_Some:
  assumes "assessment (fst (assess_transaction e w req)) = Some a"
  shows "\<exists>tx w'. transaction req = Some tx \<and> assess_steps e w tx = (Inr a, w')"
proof (cases "transaction req")
  case None
  with assms show ?thesis by (simp add: assess_transaction_def Let_def)
next
  case (Some tx)
  obtain x w' where s: "assess_steps e w tx = (x, w')" by (cases "assess_steps e w tx")
  with assms Some show ?thesis
    by (cases x) (simp_all add: assess_transaction_def Let_def)
qed

lemma assess_transaction_succeeds:
  assumes "transaction req = Some tx"
    and "get_user_risk_profile e w (tx_user_id tx) = (Inr prof, w1)"
    and "db_execute_error e = None" and "redis_delete_error e = None" and "alert_error e = None"
  shows "\<exists>a. success (fst (assess_transaction e w req)) \<and>
             assessment (fst (assess_transaction e w req)) = Some a \<and>
             error (fst (assess_transaction e w req)) = None \<and>
             rules a = execute_fraud_rules e tx prof \<and>
             fraud_assessments (snd (assess_transaction e w req)) = fraud_assessments w @ [a]"
proof -
  from assess_steps_outcome [OF assms(2)] obtain a where
    a: "rules a = execute_fraud_rules e tx prof"
    and "\<exists>w'. assess_steps e w tx = (Inr a, w') \<and> fraud_assessments w' = fraud_assessments w1 @ [a]"
    using assms(3-5) by (auto split: if_splits)
  then obtain w' where s: "assess_steps e w tx = (Inr a, w')"
    "fraud_assessments w' = fraud_assessments w1 @ [a]" by blast
  from get_profile_frame [OF assms(2)] have "fraud_assessments w1 = fraud_assessments w" by simp
  with s a assms(1) show ?thesis
    by (intro exI [of _ a]) (simp add: assess_transaction_def Let_def)
qed

lemma profile0_lookup:
  "get_user_risk_profile env0 world0 ''alice'' =
     (Inr profile0, world0\<lparr>cache := (cache world0)(cache_key_of ''alice'' \<mapsto> profile0)\<rparr>)"
  by (simp add: get_user_risk_profile_def env0_def world0_def row0_def profile0_def Let_def
      Money_init_def UserRiskProfile_init_def unit_interval_def calculate_base_risk_score_def
      calculate_transaction_history_score_def calculate_age_score_def determine_risk_level_def
      verification_scores_def np_clip_def)

lemma run0_succeeds:
  "\<exists>a. success (fst (assess_transaction env0 world0 request0)) \<and>
       assessment (fst (assess_transaction env0 world0 request0)) = Some a \<and>
       error (fst (assess_transaction env0 world0 request0)) = None \<and>
       rules a = execute_fraud_rules env0 tx0 profile0 \<and>
       fraud_assessments (snd (assess_transaction env0 world0 request0)) =
         fraud_assessments world0 @ [a]"
proof (rule assess_transaction_succeeds)
  show "transaction request0 = Some tx0" by (simp add: request0_def)
  show "get_user_risk_profile env0 world0 (tx_user_id tx0) =
     (Inr profile0, world0\<lparr>cache := (cache world0)(cache_key_of ''alice'' \<mapsto> profile0)\<rparr>)"
    using profile0_lookup by (simp add: tx0_def)
qed (simp_all add: env0_def)

text \<open>
  Claim C3. For every final score \<open>s\<close> and every list of rule results, the action is
  REJECT exactly when \<open>s \<ge> 0.8\<close> and HOLD exactly when \<open>0.6 \<le> s < 0.8\<close>; for
  \<open>0.3 \<le> s < 0.6\<close> it is MANUAL_REVIEW if some result is triggered with weighted score
  above 0.5 and APPROVE otherwise; for \<open>s < 0.3\<close> it is APPROVE. In every assessment that
  \<^verbatim>\<open>assess_transaction\<close> returns, the action is the one so determined and
  \<^verbatim>\<open>requires_manual_review\<close> holds exactly when the action is MANUAL_REVIEW.
\<close>

theorem C3_action:
  "(determine_action s lvl rs = REJECT \<longleftrightarrow> s \<ge> 0.8) \<and>
   (determine_action s lvl rs = HOLD \<longleftrightarrow> 0.6 \<le> s \<and> s < 0.8) \<and>
   (0.3 \<le> s \<and> s < 0.6 \<longrightarrow>
      determine_action s lvl rs =
        (if \<exists>r \<in> set rs. triggered r \<and> score r > 0.5 then MANUAL_REVIEW else APPROVE)) \<and>
   (s < 0.3 \<longrightarrow> determine_action s lvl rs = APPROVE) \<and>
   (\<forall>a. assessment (fst (assess_transaction e w req)) = Some a \<longrightarrow>
        action a = determine_action (fa_score a) (fa_risk_level a) (rules a) \<and>
        requires_manual_review a = (action a = MANUAL_REVIEW))"
proof -
  have "action a = determine_action (fa_score a) (fa_risk_level a) (rules a) \<and>
        requires_manual_review a = (action a = MANUAL_REVIEW)"
    if "assessment (fst (assess_transaction e w req)) = Some a" for a
  proof -
    from assess_transaction_Some [OF that] obtain tx w' where
      "assess_steps e w tx = (Inr a, w')" by blast
    from assess_steps_Inr [OF this] show ?thesis by blast
  qed
  with determine_action_cases [of s lvl rs] show ?thesis by blast
qed

theorem C3_action_witness:
  "determine_action 0.45 MEDIUM
     [\<lparr>rule_name = ''X'', triggered = True, score = 0.55, details = [],
       execution_time_ms = 1\<rparr>] = MANUAL_REVIEW
   \<and> determine_action 0.45 MEDIUM [] = APPROVE
   \<and> determine_action 0.9 CRITICAL [] = REJECT
   \<and> determine_action 0.7 HIGH [] = HOLD
   \<and> determine_action 0.1 LOW [] = APPROVE
   \<and> (\<exists>a. assessment (fst (assess_transaction env0 world0 request0)) = Some a \<and>
          action a = determine_action (fa_score a) (fa_risk_level a) (rules a) \<and>
          requires_manual_review a = (action a = MANUAL_REVIEW))"
proof -
  from run0_succeeds obtain a where
    a: "assessment (fst (assess_transaction env0 world0 request0)) = Some a" by blast
  with C3_action [of "0.45" MEDIUM "[]" env0 world0 request0]
  have "\<exists>a. assessment (fst (assess_transaction env0 world0 request0)) = Some a \<and>
          action a = determine_action (fa_score a) (fa_risk_level a) (rules a) \<and>
          requires_manual_review a = (action a = MANUAL_REVIEW)" by blast
  moreover have "determine_action 0.45 MEDIUM
     [\<lparr>rule_name = ''X'', triggered = True, score = 0.55, details = [],
       execution_time_ms = 1\<rparr>] = MANUAL_REVIEW"
    using C3_action [of "0.45" MEDIUM "[\<lparr>rule_name = ''X'', triggered = True, score = 0.55,
       details = [], execution_time_ms = 1\<rparr>]" env0 world0 request0] by simp
  moreover have "determine_action 0.45 MEDIUM [] = APPROVE"
    using C3_action [of "0.45" MEDIUM "[]" env0 world0 request0] by simp
  moreover have "determine_action 0.9 CRITICAL [] = REJECT"
    using C3_action [of "0.9" CRITICAL "[]" env0 world0 request0] by simp
  moreover have "determine_action 0.7 HIGH [] = HOLD"
    using C3_action [of "0.7" HIGH "[]" env0 world0 request0] by simp
  moreover have "determine_action 0.1 LOW [] = APPROVE"
    using C3_action [of "0.1" LOW "[]" env0 world0 request0] by simp
  ultimately show ?thesis by blast
qed

text \<open>
  Claim C10. With the default catalog and the five built-in evaluators, every rule result
  has a weighted score of at most 0.27, so no triggered result has a weighted score above
  0.5; hence the action is never MANUAL_REVIEW on the results of the rule engine, and every
  assessment that \<^verbatim>\<open>assess_transaction\<close> returns has an action other than MANUAL_REVIEW
  and \<^verbatim>\<open>requires_manual_review = False\<close>. (Lemmas \<open>velocity_fields_bound\<close> to
  \<open>time_fields_bound\<close> give the bound for the scores the evaluators compute, lemma
  \<open>run_rule_score\<close> for the results they return.)
\<close>

theorem C10_no_manual_review:
  "(\<forall>r \<in> set (execute_fraud_rules e tx p). score r \<le> 0.27 \<and> \<not> (triggered r \<and> score r > 0.5)) \<and>
   determine_action s lvl (execute_fraud_rules e tx p) \<noteq> MANUAL_REVIEW \<and>
   (\<forall>a. assessment (fst (assess_transaction e w req)) = Some a \<longrightarrow>
        action a \<noteq> MANUAL_REVIEW \<and> \<not> requires_manual_review a)"
proof (intro conjI allI impI ballI)
  fix r assume "r \<in> set (execute_fraud_rules e tx p)"
  with results_score_bound [of e tx p] show "score r \<le> 0.27" by blast
  then show "\<not> (triggered r \<and> score r > 0.5)" by simp
next
  show "determine_action s lvl (execute_fraud_rules e tx p) \<noteq> MANUAL_REVIEW"
    by (rule no_manual_review)
next
  fix a assume h: "assessment (fst (assess_transaction e w req)) = Some a"
  from assess_transaction_Some [OF h] obtain tx' w' where
    "assess_steps e w tx' = (Inr a, w')" by blast
  from assess_steps_Inr [OF this] obtain prof where
    r: "rules a = execute_fraud_rules e tx' prof"
    and ac: "action a = determine_action (fa_score a) (fa_risk_level a) (rules a)"
    and m: "requires_manual_review a = (action a = MANUAL_REVIEW)" by blast
  from ac r no_manual_review [of "fa_score a" "fa_risk_level a" e tx' prof]
  show "action a \<noteq> MANUAL_REVIEW" by simp
  with m show "\<not> requires_manual_review a" by simp
qed

theorem C10_no_manual_review_witness:
  "list_all (\<lambda>r. score r \<le> 0.27) (execute_fraud_rules env0 tx0 profile0)
   \<and> determine_action 0.45 MEDIUM (execute_fraud_rules env0 tx0 profile0) \<noteq> MANUAL_REVIEW
   \<and> (\<exists>a. assessment (fst (assess_transaction env0 world0 request0)) = Some a \<and>
          action a \<noteq> MANUAL_REVIEW \<and> \<not> requires_manual_review a)"
proof -
  note c = C10_no_manual_review [of env0 tx0 profile0 "0.45" MEDIUM world0 request0]
  from run0_succeeds obtain a where
    a: "assessment (fst (assess_transaction env0 world0 request0)) = Some a" by blast
  with c have "\<exists>a. assessment (fst (assess_transaction env0 world0 request0)) = Some a \<and>
          action a \<noteq> MANUAL_REVIEW \<and> \<not> requires_manual_review a" by blast
  moreover from c have "list_all (\<lambda>r. score r \<le> 0.27) (execute_fraud_rules env0 tx0 profile0)"
    by (simp add: list_all_iff)
  moreover from c have
    "determine_action 0.45 MEDIUM (execute_fraud_rules env0 tx0 profile0) \<noteq> MANUAL_REVIEW"
    by blast
  ultimately show ?thesis by blast
qed

lemma amount_anomaly_raises:
  "0 \<le> cfg_weight cfg \<Longrightarrow> cfg_weight cfg \<le> 1 \<Longrightarrow>
     check_amount_anomaly tx p cfg =
       Inl (ValidationError ''FraudRuleResult'' [''execution_time_ms''])"
proof -
  assume w: "0 \<le> cfg_weight cfg" "cfg_weight cfg \<le> 1"
  from amount_fields_bound [OF w(1), of tx p] w
  have "0 \<le> f_score (amount_anomaly_fields tx p cfg) \<and>
        f_score (amount_anomaly_fields tx p cfg) \<le> 1" by auto
  then show ?thesis
    by (simp add: check_amount_anomaly_def construct_result_def FraudRuleResult_init_def)
qed

text \<open>
  Claim C9. The rule engine returns one result for each rule of the catalog, in catalog
  order: the evaluator of every rule is run whatever the earlier ones did, and where it
  raises, the result recorded for the rule has \<^verbatim>\<open>triggered = False\<close>, score 0 and details
  \<open>{error: message}\<close>. The engine itself never raises, and the assessment completes
  with \<^verbatim>\<open>success = True\<close> whenever the profile lookup, the store, the cache and the alert
  sink do not fail: a failing evaluator is never fatal.
\<close>

theorem C9_rule_failure_not_fatal:
  "length (execute_fraud_rules e tx p) = length fraud_rules \<and>
   (\<forall>i < length fraud_rules.
      \<exists>x. run_rule e tx p (fst (fraud_rules ! i)) (snd (fraud_rules ! i)) = Some x \<and>
          execute_fraud_rules e tx p ! i =
            rule_outcome (fst (fraud_rules ! i)) (rule_ms e (fst (fraud_rules ! i))) x) \<and>
   (\<forall>n ms err.
      rule_outcome n ms (Inl err) =
        \<lparr>rule_name = n, triggered = False, score = 0,
         details = [(''error'', JStr (str_error err))], execution_time_ms = ms\<rparr>) \<and>
   (\<forall>w req tx' prof w1.
      transaction req = Some tx' \<longrightarrow>
      get_user_risk_profile e w (tx_user_id tx') = (Inr prof, w1) \<longrightarrow>
      db_execute_error e = None \<longrightarrow> redis_delete_error e = None \<longrightarrow> alert_error e = None \<longrightarrow>
      success (fst (assess_transaction e w req)) \<and>
      (\<exists>a. assessment (fst (assess_transaction e w req)) = Some a \<and>
           rules a = execute_fraud_rules e tx' prof))"
proof (intro conjI allI impI)
  show "length (execute_fraud_rules e tx p) = length fraud_rules"
    by (simp add: execute_fraud_rules_map)
next
  fix i assume i: "i < length fraud_rules"
  then have "(fst (fraud_rules ! i), snd (fraud_rules ! i)) \<in> set fraud_rules" by simp
  from catalog_runs [OF this] obtain x where
    x: "run_rule e tx p (fst (fraud_rules ! i)) (snd (fraud_rules ! i)) = Some x" by blast
  with i show "\<exists>x. run_rule e tx p (fst (fraud_rules ! i)) (snd (fraud_rules ! i)) = Some x \<and>
          execute_fraud_rules e tx p ! i =
            rule_outcome (fst (fraud_rules ! i)) (rule_ms e (fst (fraud_rules ! i))) x"
    by (simp add: execute_fraud_rules_map)
next
  fix n ms err
  show "rule_outcome n ms (Inl err) =
        \<lparr>rule_name = n, triggered = False, score = 0,
         details = [(''error'', JStr (str_error err))], execution_time_ms = ms\<rparr>"
    by (simp add: rule_outcome_def error_result_def)
next
  fix w :: world and req :: FraudDetectionRequest and tx' :: Transaction
    and prof :: UserRiskProfile and w1 :: world
  assume h: "transaction req = Some tx'"
    "get_user_risk_profile e w (tx_user_id tx') = (Inr prof, w1)"
    "db_execute_error e = None" "redis_delete_error e = None" "alert_error e = None"
  from assess_transaction_succeeds [OF h]
  show "success (fst (assess_transaction e w req))"
    and "\<exists>a. assessment (fst (assess_transaction e w req)) = Some a \<and>
           rules a = execute_fraud_rules e tx' prof"
    by blast+
qed

theorem C9_rule_failure_not_fatal_witness:
  "length (execute_fraud_rules env0 tx0 profile0) = 5
   \<and> execute_fraud_rules env0 tx0 profile0 ! 1 =
       \<lparr>rule_name = ''amount_anomaly'', triggered = False, score = 0,
        details = [(''error'', JStr ''FraudRuleResult: execution_time_ms '')],
        execution_time_ms = 1\<rparr>
   \<and> success (fst (assess_transaction env0 world0 request0))"
proof -
  note c = C9_rule_failure_not_fatal [of env0 tx0 profile0]
  have len: "length fraud_rules = 5" by (simp add: fraud_rules_def)
  have nth: "fst (fraud_rules ! 1) = ''amount_anomaly''" "cfg_weight (snd (fraud_rules ! 1)) = 0.25"
    by (simp_all add: fraud_rules_def)
  have run: "run_rule env0 tx0 profile0 (fst (fraud_rules ! 1)) (snd (fraud_rules ! 1)) =
      Some (Inl (ValidationError ''FraudRuleResult'' [''execution_time_ms'']))"
    using amount_anomaly_raises [of "snd (fraud_rules ! 1)" tx0 profile0] nth
    by (simp add: run_rule_def)
  from c len have "\<exists>x. run_rule env0 tx0 profile0 (fst (fraud_rules ! 1)) (snd (fraud_rules ! 1)) = Some x \<and>
          execute_fraud_rules env0 tx0 profile0 ! 1 =
            rule_outcome (fst (fraud_rules ! 1)) (rule_ms env0 (fst (fraud_rules ! 1))) x"
    by simp
  with run nth have "execute_fraud_rules env0 tx0 profile0 ! 1 =
      rule_outcome ''amount_anomaly'' (rule_ms env0 ''amount_anomaly'')
        (Inl (ValidationError ''FraudRuleResult'' [''execution_time_ms'']))"
    by simp
  with c have r1: "execute_fraud_rules env0 tx0 profile0 ! 1 =
       \<lparr>rule_name = ''amount_anomaly'', triggered = False, score = 0,
        details = [(''error'', JStr ''FraudRuleResult: execution_time_ms '')],
        execution_time_ms = 1\<rparr>"
    by (simp add: env0_def)
  have "transaction request0 = Some tx0" by (simp add: request0_def)
  moreover have "get_user_risk_profile env0 world0 (tx_user_id tx0) =
     (Inr profile0, world0\<lparr>cache := (cache world0)(cache_key_of ''alice'' \<mapsto> profile0)\<rparr>)"
    using profile0_lookup by (simp add: tx0_def)
  moreover have "db_execute_error env0 = None" "redis_delete_error env0 = None"
    "alert_error env0 = None" by (simp_all add: env0_def)
  ultimately have "success (fst (assess_transaction env0 world0 request0))"
    using c by blast
  with c len r1 show ?thesis by simp
qed

section \<open>Failure of the pipeline\<close>

lemma profile1_lookup:
  "get_user_risk_profile env1 world0 ''alice'' =
     (Inr profile0, world0\<lparr>cache := (cache world0)(cache_key_of ''alice'' \<mapsto> profile0)\<rparr>)"
  by (simp add: get_user_risk_profile_def env1_def env0_def world0_def row0_def profile0_def
      Let_def Money_init_def UserRiskProfile_init_def unit_interval_def
      calculate_base_risk_score_def calculate_transaction_history_score_def
      calculate_age_score_def determine_risk_level_def verification_scores_def np_clip_def)

lemma assess_steps_Inl:
  assumes "assess_steps e w tx = (Inl err, w')"
  shows "fraud_assessments w' = fraud_assessments w \<or>
         (\<exists>a. fraud_assessments w' = fraud_assessments w @ [a] \<and> db_execute_error e = None \<and>
              (redis_delete_error e = Some err \<or> alert_error e = Some err))"
proof -
  obtain x w1 where g: "get_user_risk_profile e w (tx_user_id tx) = (x, w1)"
    by (cases "get_user_risk_profile e w (tx_user_id tx)")
  from get_profile_frame [OF g] have fr: "fraud_assessments w1 = fraud_assessments w" by simp
  show ?thesis
  proof (cases x)
    case (Inl err')
    with g assms fr show ?thesis by (simp add: assess_steps_def)
  next
    case (Inr prof)
    from assess_steps_outcome [OF g [unfolded Inr]] obtain a where
      o: "assess_steps e w tx =
             (case db_execute_error e of
                Some err \<Rightarrow> (Inl err, w1)
              | None \<Rightarrow>
                  (case redis_delete_error e of
                     Some err \<Rightarrow> (Inl err, w1\<lparr>fraud_assessments := fraud_assessments w1 @ [a]\<rparr>)
                   | None \<Rightarrow>
                       (if fa_risk_level a = HIGH \<or> fa_risk_level a = CRITICAL then
                          (case alert_error e of
                             Some err \<Rightarrow>
                               (Inl err,
                                w1\<lparr>fraud_assessments := fraud_assessments w1 @ [a],
                                   cache := (cache w1)(cache_key_of (tx_user_id tx) := None)\<rparr>)
                           | None \<Rightarrow>
                               (Inr a,
                                w1\<lparr>fraud_assessments := fraud_assessments w1 @ [a],
                                   cache := (cache w1)(cache_key_of (tx_user_id tx) := None),
                                   alerts := alerts w1 @ [a]\<rparr>))
                        else
                          (Inr a,
                           w1\<lparr>fraud_assessments := fraud_assessments w1 @ [a],
                              cache := (cache w1)(cache_key_of (tx_user_id tx) := None)\<rparr>))))"
      by blast
    show ?thesis
    proof (cases "db_execute_error e")
      case (Some d)
      with o assms fr show ?thesis by simp
    next
      case None
      note db = None
      show ?thesis
      proof (cases "redis_delete_error e")
        case (Some d)
        with o assms fr db show ?thesis by auto
      next
        case None
        with o assms fr db show ?thesis
          by (cases "alert_error e") (auto split: if_splits)
      qed
    qed
  qed
qed

lemma assess_transaction_failure:
  assumes "transaction req = Some tx" and "\<not> success (fst (assess_transaction e w req))"
  shows "\<exists>err. assess_steps e w tx = (Inl err, snd (assess_transaction e w req)) \<and>
           fst (assess_transaction e w req) =
             \<lparr>success = False, assessment = None, error = Some (str_error err),
              processing_time_ms = (t_done e - t_start e) * 1000,
              correlation_id = ''fraud_'' @ str_int (py_int (t_corr e))\<rparr>"
proof -
  obtain x w' where s: "assess_steps e w tx = (x, w')" by (cases "assess_steps e w tx")
  show ?thesis
  proof (cases x)
    case (Inl err)
    with s assms(1) show ?thesis by (simp add: assess_transaction_def Let_def)
  next
    case (Inr a)
    with s assms show ?thesis by (simp add: assess_transaction_def Let_def)
  qed
qed

lemma run1_fails:
  "\<exists>a. assess_steps env1 world0 tx0 =
         (Inl (ExternalError ''connection lost''),
          world0\<lparr>cache := (cache world0)(cache_key_of ''alice'' \<mapsto> profile0),
                 fraud_assessments := [a]\<rparr>)"
proof -
  have g: "get_user_risk_profile env1 world0 (tx_user_id tx0) =
     (Inr profile0, world0\<lparr>cache := (cache world0)(cache_key_of ''alice'' \<mapsto> profile0)\<rparr>)"
    using profile1_lookup by (simp add: tx0_def)
  from assess_steps_outcome [OF g] show ?thesis
    by (auto simp: env1_def env0_def world0_def)
qed

text \<open>
  Claim C5, as the specification states it, promises that nothing is persisted when a step
  raises, also when the step runs after persistence. The coordinator inserts the assessment
  and only then invalidates the cache and sends the alert, with nothing that undoes the
  insert: when the cache's \<^verbatim>\<open>delete\<close> raises, the response reports failure and the
  assessment is in the store.
\<close>

theorem C5_persisted_counterexample:
  "transaction request0 = Some tx0
   \<and> \<not> success (fst (assess_transaction env1 world0 request0))
   \<and> assessment (fst (assess_transaction env1 world0 request0)) = None
   \<and> error (fst (assess_transaction env1 world0 request0)) = Some ''connection lost''
   \<and> fraud_assessments world0 = []
   \<and> length (fraud_assessments (snd (assess_transaction env1 world0 request0))) = 1"
proof -
  from run1_fails obtain a where
    "assess_steps env1 world0 tx0 =
         (Inl (ExternalError ''connection lost''),
          world0\<lparr>cache := (cache world0)(cache_key_of ''alice'' \<mapsto> profile0),
                 fraud_assessments := [a]\<rparr>)" by blast
  then show ?thesis
    by (simp add: assess_transaction_def Let_def request0_def world0_def)
qed

lemma assess_outcome_full:
  assumes t: "transaction req = Some tx"
    and g: "get_user_risk_profile e w (tx_user_id tx) = (Inr prof, w1)"
  shows "\<exists>a. rules a = execute_fraud_rules e tx prof \<and>
           ml_score a = calculate_ml_score e tx prof \<and>
           fa_score a = calculate_final_score (rules a) (ml_score a) \<and>
           fa_user_id a = tx_user_id tx \<and> transaction_id a = Some (tx_id tx) \<and>
           (\<forall>err. db_execute_error e = Some err \<longrightarrow>
              fst (assess_transaction e w req) =
                \<lparr>success = False, assessment = None, error = Some (str_error err),
                 processing_time_ms = (t_done e - t_start e) * 1000,
                 correlation_id = ''fraud_'' @ str_int (py_int (t_corr e))\<rparr> \<and>
              fraud_assessments (snd (assess_transaction e w req)) = fraud_assessments w) \<and>
           (\<forall>err. db_execute_error e = None \<longrightarrow> redis_delete_error e = Some err \<longrightarrow>
              fst (assess_transaction e w req) =
                \<lparr>success = False, assessment = None, error = Some (str_error err),
                 processing_time_ms = (t_done e - t_start e) * 1000,
                 correlation_id = ''fraud_'' @ str_int (py_int (t_corr e))\<rparr> \<and>
              fraud_assessments (snd (assess_transaction e w req)) = fraud_assessments w @ [a]) \<and>
           (db_execute_error e = None \<longrightarrow> redis_delete_error e = None \<longrightarrow>
              fraud_assessments (snd (assess_transaction e w req)) = fraud_assessments w @ [a] \<and>
              (fst (assess_transaction e w req) =
                 \<lparr>success = True, assessment = Some a, error = None,
                  processing_time_ms = (t_done e - t_start e) * 1000,
                  correlation_id = ''fraud_'' @ str_int (py_int (t_corr e))\<rparr> \<or>
               (\<exists>err. alert_error e = Some err \<and>
                  fst (assess_transaction e w req) =
                    \<lparr>success = False, assessment = None, error = Some (str_error err),
                     processing_time_ms = (t_done e - t_start e) * 1000,
                     correlation_id = ''fraud_'' @ str_int (py_int (t_corr e))\<rparr>)))"
proof -
  define rs where "rs = execute_fraud_rules e tx prof"
  define ml where "ml = calculate_ml_score e tx prof"
  define fs where "fs = calculate_final_score rs ml"
  define lvl where "lvl = determine_risk_level fs"
  define act where "act = determine_action fs lvl rs"
  from assessment_valid [OF rs_def ml_def] obtain a where
    a: "FraudAssessment_init e (tx_user_id tx) (tx_id tx) fs lvl rs
          ml act (generate_assessment_reason e rs ml fs)
          (calculate_confidence rs ml)
          ((t_assessed e - t_start e) * 1000) (act = MANUAL_REVIEW) = Inr a"
    unfolding fs_def by blast
  note f = FraudAssessment_init_Inr [OF a]
  from get_profile_frame [OF g] have fr: "fraud_assessments w1 = fraud_assessments w" by simp
  have st: "assess_steps e w tx =
             (case db_execute_error e of
                Some err \<Rightarrow> (Inl err, w1)
              | None \<Rightarrow>
                  (case redis_delete_error e of
                     Some err \<Rightarrow> (Inl err, w1\<lparr>fraud_assessments := fraud_assessments w1 @ [a]\<rparr>)
                   | None \<Rightarrow>
                       (if lvl = HIGH \<or> lvl = CRITICAL then
                          (case alert_error e of
                             Some err \<Rightarrow>
                               (Inl err,
                                w1\<lparr>fraud_assessments := fraud_assessments w1 @ [a],
                                   cache := (cache w1)(cache_key_of (tx_user_id tx) := None)\<rparr>)
                           | None \<Rightarrow>
                               (Inr a,
                                w1\<lparr>fraud_assessments := fraud_assessments w1 @ [a],
                                   cache := (cache w1)(cache_key_of (tx_user_id tx) := None),
                                   alerts := alerts w1 @ [a]\<rparr>))
                        else
                          (Inr a,
                           w1\<lparr>fraud_assessments := fraud_assessments w1 @ [a],
                              cache := (cache w1)(cache_key_of (tx_user_id tx) := None)\<rparr>))))"
    using g a [unfolded act_def lvl_def fs_def ml_def rs_def]
    by (simp add: assess_steps_def Let_def store_assessment_def update_user_risk_profile_def
        send_fraud_alert_def lvl_def fs_def ml_def rs_def split: option.split)
  have c1: "fst (assess_transaction e w req) =
                \<lparr>success = False, assessment = None, error = Some (str_error err),
                 processing_time_ms = (t_done e - t_start e) * 1000,
                 correlation_id = ''fraud_'' @ str_int (py_int (t_corr e))\<rparr> \<and>
              fraud_assessments (snd (assess_transaction e w req)) = fraud_assessments w"
    if "db_execute_error e = Some err" for err
    using that t st fr by (simp add: assess_transaction_def Let_def)
  have c2: "fst (assess_transaction e w req) =
                \<lparr>success = False, assessment = None, error = Some (str_error err),
                 processing_time_ms = (t_done e - t_start e) * 1000,
                 correlation_id = ''fraud_'' @ str_int (py_int (t_corr e))\<rparr> \<and>
              fraud_assessments (snd (assess_transaction e w req)) = fraud_assessments w @ [a]"
    if "db_execute_error e = None" "redis_delete_error e = Some err" for err
    using that t st fr by (simp add: assess_transaction_def Let_def)
  have c3: "fraud_assessments (snd (assess_transaction e w req)) = fraud_assessments w @ [a] \<and>
              (fst (assess_transaction e w req) =
                 \<lparr>success = True, assessment = Some a, error = None,
                  processing_time_ms = (t_done e - t_start e) * 1000,
                  correlation_id = ''fraud_'' @ str_int (py_int (t_corr e))\<rparr> \<or>
               (\<exists>err. alert_error e = Some err \<and>
                  fst (assess_transaction e w req) =
                    \<lparr>success = False, assessment = None, error = Some (str_error err),
                     processing_time_ms = (t_done e - t_start e) * 1000,
                     correlation_id = ''fraud_'' @ str_int (py_int (t_corr e))\<rparr>))"
    if "db_execute_error e = None" "redis_delete_error e = None"
  proof (cases "alert_error e")
    case None
    with that t st fr show ?thesis by (simp add: assess_transaction_def Let_def)
  next
    case (Some err)
    with that t st fr show ?thesis
      by (cases "lvl = HIGH \<or> lvl = CRITICAL") (simp_all add: assess_transaction_def Let_def)
  qed
  from f c1 c2 c3 show ?thesis
    unfolding rs_def ml_def fs_def by (intro exI [of _ a]) simp
qed

lemma profile3_lookup:
  "get_user_risk_profile env3 world0 ''alice'' =
     (Inr profile0, world0\<lparr>cache := (cache world0)(cache_key_of ''alice'' \<mapsto> profile0)\<rparr>)"
  by (simp add: get_user_risk_profile_def env3_def env0_def world0_def row0_def profile0_def
      Let_def Money_init_def UserRiskProfile_init_def unit_interval_def
      calculate_base_risk_score_def calculate_transaction_history_score_def
      calculate_age_score_def determine_risk_level_def verification_scores_def np_clip_def)

lemma corr_env0: "str_int (py_int (t_corr env0)) = ''1700000000''"
  by (simp add: env0_def py_int_def str_int_def digit_def)

text \<open>
  Claim C5, amended. For every request carrying a transaction, if a step of the pipeline
  raises, the response has \<^verbatim>\<open>success = False\<close>, the message of that exception as error,
  the correlation id and the timing, and no assessment. When the profile lookup or the
  insert into the store raises, the store is left as it was. When the insert succeeds and
  the cache invalidation raises, the store holds the assessment that was built, appended to
  what it held before, and so it does when the alert raises. When no step raises, the
  response carries that assessment and the store holds it.
\<close>

theorem C5_failure_amended:
  assumes "transaction req = Some tx"
  shows
    "(\<forall>err w1. get_user_risk_profile e w (tx_user_id tx) = (Inl err, w1) \<longrightarrow>
        fst (assess_transaction e w req) =
          \<lparr>success = False, assessment = None, error = Some (str_error err),
           processing_time_ms = (t_done e - t_start e) * 1000,
           correlation_id = ''fraud_'' @ str_int (py_int (t_corr e))\<rparr> \<and>
        fraud_assessments (snd (assess_transaction e w req)) = fraud_assessments w) \<and>
     (\<forall>prof w1. get_user_risk_profile e w (tx_user_id tx) = (Inr prof, w1) \<longrightarrow>
        (\<exists>a. rules a = execute_fraud_rules e tx prof \<and>
           ml_score a = calculate_ml_score e tx prof \<and>
           fa_score a = calculate_final_score (rules a) (ml_score a) \<and>
           fa_user_id a = tx_user_id tx \<and> transaction_id a = Some (tx_id tx) \<and>
           (\<forall>err. db_execute_error e = Some err \<longrightarrow>
              fst (assess_transaction e w req) =
                \<lparr>success = False, assessment = None, error = Some (str_error err),
                 processing_time_ms = (t_done e - t_start e) * 1000,
                 correlation_id = ''fraud_'' @ str_int (py_int (t_corr e))\<rparr> \<and>
              fraud_assessments (snd (assess_transaction e w req)) = fraud_assessments w) \<and>
           (\<forall>err. db_execute_error e = None \<longrightarrow> redis_delete_error e = Some err \<longrightarrow>
              fst (assess_transaction e w req) =
                \<lparr>success = False, assessment = None, error = Some (str_error err),
                 processing_time_ms = (t_done e - t_start e) * 1000,
                 correlation_id = ''fraud_'' @ str_int (py_int (t_corr e))\<rparr> \<and>
              fraud_assessments (snd (assess_transaction e w req)) = fraud_assessments w @ [a]) \<and>
           (db_execute_error e = None \<longrightarrow> redis_delete_error e = None \<longrightarrow>
              fraud_assessments (snd (assess_transaction e w req)) = fraud_assessments w @ [a] \<and>
              (fst (assess_transaction e w req) =
                 \<lparr>success = True, assessment = Some a, error = None,
                  processing_time_ms = (t_done e - t_start e) * 1000,
                  correlation_id = ''fraud_'' @ str_int (py_int (t_corr e))\<rparr> \<or>
               (\<exists>err. alert_error e = Some err \<and>
                  fst (assess_transaction e w req) =
                    \<lparr>success = False, assessment = None, error = Some (str_error err),
                     processing_time_ms = (t_done e - t_start e) * 1000,
                     correlation_id = ''fraud_'' @ str_int (py_int (t_corr e))\<rparr>)))))"
proof (intro conjI allI impI)
  fix err :: error and w1 :: world
  assume g: "get_user_risk_profile e w (tx_user_id tx) = (Inl err, w1)"
  from assess_steps_profile_fails [OF g] assms
  show "fst (assess_transaction e w req) =
          \<lparr>success = False, assessment = None, error = Some (str_error err),
           processing_time_ms = (t_done e - t_start e) * 1000,
           correlation_id = ''fraud_'' @ str_int (py_int (t_corr e))\<rparr>"
    by (simp add: assess_transaction_def Let_def)
  from assess_steps_profile_fails [OF g] assms get_profile_frame [OF g]
  show "fraud_assessments (snd (assess_transaction e w req)) = fraud_assessments w"
    by (simp add: assess_transaction_def Let_def)
next
  fix prof :: UserRiskProfile and w1 :: world
  assume "get_user_risk_profile e w (tx_user_id tx) = (Inr prof, w1)"
  from assess_outcome_full [OF assms this]
  show "\<exists>a. rules a = execute_fraud_rules e tx prof \<and>
           ml_score a = calculate_ml_score e tx prof \<and>
           fa_score a = calculate_final_score (rules a) (ml_score a) \<and>
           fa_user_id a = tx_user_id tx \<and> transaction_id a = Some (tx_id tx) \<and>
           (\<forall>err. db_execute_error e = Some err \<longrightarrow>
              fst (assess_transaction e w req) =
                \<lparr>success = False, assessment = None, error = Some (str_error err),
                 processing_time_ms = (t_done e - t_start e) * 1000,
                 correlation_id = ''fraud_'' @ str_int (py_int (t_corr e))\<rparr> \<and>
              fraud_assessments (snd (assess_transaction e w req)) = fraud_assessments w) \<and>
           (\<forall>err. db_execute_error e = None \<longrightarrow> redis_delete_error e = Some err \<longrightarrow>
              fst (assess_transaction e w req) =
                \<lparr>success = False, assessment = None, error = Some (str_error err),
                 processing_time_ms = (t_done e - t_start e) * 1000,
                 correlation_id = ''fraud_'' @ str_int (py_int (t_corr e))\<rparr> \<and>
              fraud_assessments (snd (assess_transaction e w req)) = fraud_assessments w @ [a]) \<and>
           (db_execute_error e = None \<longrightarrow> redis_delete_error e = None \<longrightarrow>
              fraud_assessments (snd (assess_transaction e w req)) = fraud_assessments w @ [a] \<and>
              (fst (assess_transaction e w req) =
                 \<lparr>success = True, assessment = Some a, error = None,
                  processing_time_ms = (t_done e - t_start e) * 1000,
                  correlation_id = ''fraud_'' @ str_int (py_int (t_corr e))\<rparr> \<or>
               (\<exists>err. alert_error e = Some err \<and>
                  fst (assess_transaction e w req) =
                    \<lparr>success = False, assessment = None, error = Some (str_error err),
                     processing_time_ms = (t_done e - t_start e) * 1000,
                     correlation_id = ''fraud_'' @ str_int (py_int (t_corr e))\<rparr>)))" .
qed

theorem C5_failure_amended_witness:
  "(fst (assess_transaction env0 world0
          \<lparr>req_user_id = ''bob'', transaction = Some (tx0\<lparr>tx_user_id := ''bob''\<rparr>)\<rparr>) =
      \<lparr>success = False, assessment = None, error = Some ''Money: amount '',
       processing_time_ms = 30, correlation_id = ''fraud_1700000000''\<rparr>
    \<and> fraud_assessments (snd (assess_transaction env0 world0
          \<lparr>req_user_id = ''bob'', transaction = Some (tx0\<lparr>tx_user_id := ''bob''\<rparr>)\<rparr>)) = [])
   \<and> (fst (assess_transaction env3 world0 request0) =
      \<lparr>success = False, assessment = None, error = Some ''insert failed'',
       processing_time_ms = 30, correlation_id = ''fraud_1700000000''\<rparr>
    \<and> fraud_assessments (snd (assess_transaction env3 world0 request0)) = [])
   \<and> (\<exists>a. fst (assess_transaction env1 world0 request0) =
      \<lparr>success = False, assessment = None, error = Some ''connection lost'',
       processing_time_ms = 30, correlation_id = ''fraud_1700000000''\<rparr>
    \<and> fraud_assessments (snd (assess_transaction env1 world0 request0)) = [a]
    \<and> fa_user_id a = ''alice'' \<and> transaction_id a = Some ''t1''
    \<and> rules a = execute_fraud_rules env1 tx0 profile0)
   \<and> (\<exists>a. fst (assess_transaction env0 world0 request0) =
      \<lparr>success = True, assessment = Some a, error = None,
       processing_time_ms = 30, correlation_id = ''fraud_1700000000''\<rparr>
    \<and> fraud_assessments (snd (assess_transaction env0 world0 request0)) = [a])"
proof -
  have corr: "str_int (py_int (t_corr env1)) = ''1700000000''"
    "str_int (py_int (t_corr env3)) = ''1700000000''"
    using corr_env0 by (simp_all add: env1_def env3_def)
  have tm: "(t_done env0 - t_start env0) * 1000 = 30" "(t_done env1 - t_start env1) * 1000 = 30"
    "(t_done env3 - t_start env3) * 1000 = 30"
    by (simp_all add: env0_def env1_def env3_def)
  have errs: "db_execute_error env0 = None" "redis_delete_error env0 = None"
    "alert_error env0 = None"
    "db_execute_error env1 = None" "redis_delete_error env1 = Some (ExternalError ''connection lost'')"
    "db_execute_error env3 = Some (ExternalError ''insert failed'')"
    by (simp_all add: env0_def env1_def env3_def)
  have w0: "fraud_assessments world0 = []" by (simp add: world0_def)
  have t0: "transaction request0 = Some tx0" "tx_user_id tx0 = ''alice''" "tx_id tx0 = ''t1''"
    by (simp_all add: request0_def tx0_def)
  have tb: "transaction \<lparr>req_user_id = ''bob'', transaction = Some (tx0\<lparr>tx_user_id := ''bob''\<rparr>)\<rparr>
      = Some (tx0\<lparr>tx_user_id := ''bob''\<rparr>)" by simp
  have gb: "get_user_risk_profile env0 world0 (tx_user_id (tx0\<lparr>tx_user_id := ''bob''\<rparr>)) =
      (Inl (ValidationError ''Money'' [''amount'']), world0)"
    by (simp add: get_user_risk_profile_def create_default_user_profile_def Money_init_def
        env0_def world0_def Let_def)
  from C5_failure_amended [OF tb, of env0 world0] gb
  have b: "fst (assess_transaction env0 world0
          \<lparr>req_user_id = ''bob'', transaction = Some (tx0\<lparr>tx_user_id := ''bob''\<rparr>)\<rparr>) =
      \<lparr>success = False, assessment = None, error = Some ''Money: amount '',
       processing_time_ms = 30, correlation_id = ''fraud_1700000000''\<rparr>
    \<and> fraud_assessments (snd (assess_transaction env0 world0
          \<lparr>req_user_id = ''bob'', transaction = Some (tx0\<lparr>tx_user_id := ''bob''\<rparr>)\<rparr>)) = []"
    using corr_env0 tm w0 by simp
  have g3: "get_user_risk_profile env3 world0 (tx_user_id tx0) =
     (Inr profile0, world0\<lparr>cache := (cache world0)(cache_key_of ''alice'' \<mapsto> profile0)\<rparr>)"
    using profile3_lookup t0 by simp
  from C5_failure_amended [OF t0(1), of env3 world0] g3 errs
  have c3: "fst (assess_transaction env3 world0 request0) =
      \<lparr>success = False, assessment = None, error = Some ''insert failed'',
       processing_time_ms = 30, correlation_id = ''fraud_1700000000''\<rparr>
    \<and> fraud_assessments (snd (assess_transaction env3 world0 request0)) = []"
    using corr tm w0 by auto
  have g1: "get_user_risk_profile env1 world0 (tx_user_id tx0) =
     (Inr profile0, world0\<lparr>cache := (cache world0)(cache_key_of ''alice'' \<mapsto> profile0)\<rparr>)"
    using profile1_lookup t0 by simp
  from C5_failure_amended [OF t0(1), of env1 world0] g1 errs
  have c1: "\<exists>a. fst (assess_transaction env1 world0 request0) =
      \<lparr>success = False, assessment = None, error = Some ''connection lost'',
       processing_time_ms = 30, correlation_id = ''fraud_1700000000''\<rparr>
    \<and> fraud_assessments (snd (assess_transaction env1 world0 request0)) = [a]
    \<and> fa_user_id a = ''alice'' \<and> transaction_id a = Some ''t1''
    \<and> rules a = execute_fraud_rules env1 tx0 profile0"
    using corr tm w0 t0 by auto
  have g0: "get_user_risk_profile env0 world0 (tx_user_id tx0) =
     (Inr profile0, world0\<lparr>cache := (cache world0)(cache_key_of ''alice'' \<mapsto> profile0)\<rparr>)"
    using profile0_lookup t0 by simp
  from C5_failure_amended [OF t0(1), of env0 world0] g0 errs
  have c0: "\<exists>a. fst (assess_transaction env0 world0 request0) =
      \<lparr>success = True, assessment = Some a, error = None,
       processing_time_ms = 30, correlation_id = ''fraud_1700000000''\<rparr>
    \<and> fraud_assessments (snd (assess_transaction env0 world0 request0)) = [a]"
    using corr_env0 tm w0 by auto
  from b c3 c1 c0 show ?thesis by blast
qed

section \<open>The device fingerprint rule\<close>

lemma device_cfg_nth:
  "fst (fraud_rules ! 3) = ''device_fingerprint''"
  "cfg_name (snd (fraud_rules ! 3)) = ''DEVICE_FINGERPRINT''"
  "cfg_weight (snd (fraud_rules ! 3)) = 0.15"
  by (simp_all add: fraud_rules_def)

text \<open>
  With the placeholders of the source no device is known and none is blacklisted: the
  evaluator always takes the branch of an unknown device, computes a triggered result with
  raw score 0.5, and raises at the constructor call, which leaves out the required
  \<^verbatim>\<open>execution_time_ms\<close>.
\<close>

lemma placeholder_device_fields:
  "device_fingerprint_fields (source_placeholders e) tx p cfg =
     Inr \<lparr>f_rule_name = cfg_name cfg, f_triggered = True, f_score = 0.5 * cfg_weight cfg,
          f_details =
            [(''device_fingerprint'', JStr (fingerprint (device_fingerprint tx))),
             (''is_known_device'', JBool False),
             (''known_devices_count'', JInt 0),
             (''is_blacklisted'', JBool False)]\<rparr>"
  by (simp add: device_fingerprint_fields_def source_placeholders_def)

lemma placeholder_device_raises:
  assumes "0 \<le> cfg_weight cfg" and "cfg_weight cfg \<le> 1"
  shows "check_device_fingerprint (source_placeholders e) tx p cfg =
           Inl (ValidationError ''FraudRuleResult'' [''execution_time_ms''])"
  using assms
  by (simp add: check_device_fingerprint_def placeholder_device_fields construct_result_def
      FraudRuleResult_init_def)

text \<open>
  Claim C7 describes the result of the DEVICE_FINGERPRINT rule. For a device that is not
  known the evaluator computes what the claim says: triggered, raw score 0.5 weighted by
  0.15, and details with the fingerprint, the known flag, the number of known devices and
  the blacklisted flag. It then calls \<^verbatim>\<open>FraudRuleResult\<close> without
  \<^verbatim>\<open>execution_time_ms\<close>; the call raises and the rule engine records a result that is
  not triggered, has score 0 and has the error message as its only detail.
\<close>

theorem C7_device_fingerprint_raises:
  "get_user_known_devices (source_placeholders env0) (tx_user_id tx0) = Inr []
   \<and> fingerprint (device_fingerprint tx0) \<notin> set []
   \<and> device_fingerprint_fields (source_placeholders env0) tx0 profile0 (snd (fraud_rules ! 3)) =
       Inr \<lparr>f_rule_name = ''DEVICE_FINGERPRINT'', f_triggered = True, f_score = 0.075,
            f_details =
              [(''device_fingerprint'', JStr ''dev1''), (''is_known_device'', JBool False),
               (''known_devices_count'', JInt 0), (''is_blacklisted'', JBool False)]\<rparr>
   \<and> check_device_fingerprint (source_placeholders env0) tx0 profile0 (snd (fraud_rules ! 3)) =
       Inl (ValidationError ''FraudRuleResult'' [''execution_time_ms''])
   \<and> execute_fraud_rules (source_placeholders env0) tx0 profile0 ! 3 =
       \<lparr>rule_name = ''device_fingerprint'', triggered = False, score = 0,
        details = [(''error'', JStr ''FraudRuleResult: execution_time_ms '')],
        execution_time_ms = 1\<rparr>"
proof -
  have k: "get_user_known_devices (source_placeholders env0) (tx_user_id tx0) = Inr []"
    by (simp add: source_placeholders_def)
  have f: "device_fingerprint_fields (source_placeholders env0) tx0 profile0
             (snd (fraud_rules ! 3)) =
       Inr \<lparr>f_rule_name = ''DEVICE_FINGERPRINT'', f_triggered = True, f_score = 0.075,
            f_details =
              [(''device_fingerprint'', JStr ''dev1''), (''is_known_device'', JBool False),
               (''known_devices_count'', JInt 0), (''is_blacklisted'', JBool False)]\<rparr>"
    using device_cfg_nth by (simp add: placeholder_device_fields tx0_def)
  have c: "check_device_fingerprint (source_placeholders env0) tx0 profile0
             (snd (fraud_rules ! 3)) =
       Inl (ValidationError ''FraudRuleResult'' [''execution_time_ms''])"
    using placeholder_device_raises [of "snd (fraud_rules ! 3)" env0 tx0 profile0] device_cfg_nth
    by simp
  have "execute_fraud_rules (source_placeholders env0) tx0 profile0 ! 3 =
      rule_outcome (fst (fraud_rules ! 3)) (rule_ms (source_placeholders env0) (fst (fraud_rules ! 3)))
        (the (run_rule (source_placeholders env0) tx0 profile0 (fst (fraud_rules ! 3))
                (snd (fraud_rules ! 3))))"
    unfolding execute_fraud_rules_map by (simp add: fraud_rules_def)
  also have "run_rule (source_placeholders env0) tx0 profile0 (fst (fraud_rules ! 3))
               (snd (fraud_rules ! 3)) =
      Some (check_device_fingerprint (source_placeholders env0) tx0 profile0
              (snd (fraud_rules ! 3)))"
    using device_cfg_nth by (simp add: run_rule_def)
  finally have r: "execute_fraud_rules (source_placeholders env0) tx0 profile0 ! 3 =
       \<lparr>rule_name = ''device_fingerprint'', triggered = False, score = 0,
        details = [(''error'', JStr ''FraudRuleResult: execution_time_ms '')],
        execution_time_ms = 1\<rparr>"
    using device_cfg_nth c
    by (simp add: rule_outcome_def error_result_def env0_def source_placeholders_def)
  from k f c r show ?thesis by simp
qed

section \<open>The default profile\<close>

text \<open>
  Claim C2 says that the lookup of a user absent from the users table returns the default
  profile, whose two \<^verbatim>\<open>Money\<close> fields have amount zero. \<^verbatim>\<open>Money\<close> declares
  \<^verbatim>\<open>amount: float = Field(gt=0)\<close>, so the first \<^verbatim>\<open>Money(amount=0, ...)\<close> of
  \<^verbatim>\<open>_create_default_user_profile\<close> raises a validation error: no profile is returned,
  and the lookup raises, whenever the cache has no entry for the user and the store has no
  row.
\<close>

theorem C2_default_profile_raises:
  "create_default_user_profile e uid = Inl (ValidationError ''Money'' [''amount'']) \<and>
   (redis_get_error e = None \<longrightarrow> cache w (cache_key_of uid) = None \<longrightarrow>
    fetch_user_row e uid = Inr None \<longrightarrow>
      get_user_risk_profile e w uid = (Inl (ValidationError ''Money'' [''amount'']), w))"
proof -
  have d: "create_default_user_profile e uid = Inl (ValidationError ''Money'' [''amount''])"
    by (simp add: create_default_user_profile_def Money_init_def)
  then show ?thesis
    by (simp add: get_user_risk_profile_def Let_def)
qed

theorem C2_default_profile_raises_witness:
  "fetch_user_row env0 ''bob'' = Inr None
   \<and> create_default_user_profile env0 ''bob'' = Inl (ValidationError ''Money'' [''amount''])
   \<and> get_user_risk_profile env0 world0 ''bob'' =
       (Inl (ValidationError ''Money'' [''amount'']), world0)"
proof -
  have "redis_get_error env0 = None" "cache world0 (cache_key_of ''bob'') = None"
    "fetch_user_row env0 ''bob'' = Inr None"
    by (simp_all add: env0_def world0_def)
  with C2_default_profile_raises [of env0 "''bob''" world0] show ?thesis by simp
qed

section \<open>The amount anomaly rule\<close>

lemma amount_cfg_nth:
  "fst (fraud_rules ! 1) = ''amount_anomaly''"
  "cfg_name (snd (fraud_rules ! 1)) = ''AMOUNT_ANOMALY''"
  "cfg_weight (snd (fraud_rules ! 1)) = 0.25"
  by (simp_all add: fraud_rules_def)

text \<open>
  Claim C8 describes the result of the AMOUNT_ANOMALY rule. The evaluator computes what the
  claim says (lemma \<open>amount_fields_eq\<close>) and then calls \<^verbatim>\<open>FraudRuleResult\<close> without the
  required \<^verbatim>\<open>execution_time_ms\<close>, which the engine means to fill in afterwards; the call
  raises, and the engine records the result of its \<^verbatim>\<open>except\<close> branch. For a payment of
  2000 against an average of 50 (deviation 39) the evaluator computes a triggered result of
  weighted score 0.2, raises, and the rule engine lists a result that is not triggered and
  has score 0.
\<close>

theorem C8_amount_anomaly_raises:
  "total_transactions profile0 > 0
   \<and> amount (average_transaction_amount profile0) = 50
   \<and> amount (tx_amount tx0) = 2000
   \<and> amount_anomaly_fields tx0 profile0 (snd (fraud_rules ! 1)) =
       \<lparr>f_rule_name = ''AMOUNT_ANOMALY'', f_triggered = True, f_score = 0.2,
        f_details = [(''current_amount'', JFloat 2000), (''average_amount'', JFloat 50),
                     (''z_score'', JFloat 39), (''threshold'', JFloat 3)]\<rparr>
   \<and> check_amount_anomaly tx0 profile0 (snd (fraud_rules ! 1)) =
       Inl (ValidationError ''FraudRuleResult'' [''execution_time_ms''])
   \<and> execute_fraud_rules env0 tx0 profile0 ! 1 =
       \<lparr>rule_name = ''amount_anomaly'', triggered = False, score = 0,
        details = [(''error'', JStr ''FraudRuleResult: execution_time_ms '')],
        execution_time_ms = 1\<rparr>"
proof -
  have f: "amount_anomaly_fields tx0 profile0 (snd (fraud_rules ! 1)) =
       \<lparr>f_rule_name = ''AMOUNT_ANOMALY'', f_triggered = True, f_score = 0.2,
        f_details = [(''current_amount'', JFloat 2000), (''average_amount'', JFloat 50),
                     (''z_score'', JFloat 39), (''threshold'', JFloat 3)]\<rparr>"
    using amount_cfg_nth by (simp add: amount_fields_eq Let_def tx0_def profile0_def)
  have c: "check_amount_anomaly tx0 profile0 (snd (fraud_rules ! 1)) =
       Inl (ValidationError ''FraudRuleResult'' [''execution_time_ms''])"
    using amount_anomaly_raises [of "snd (fraud_rules ! 1)" tx0 profile0] amount_cfg_nth by simp
  have "execute_fraud_rules env0 tx0 profile0 ! 1 =
      rule_outcome (fst (fraud_rules ! 1)) (rule_ms env0 (fst (fraud_rules ! 1)))
        (the (run_rule env0 tx0 profile0 (fst (fraud_rules ! 1)) (snd (fraud_rules ! 1))))"
    unfolding execute_fraud_rules_map by (simp add: fraud_rules_def)
  also have "run_rule env0 tx0 profile0 (fst (fraud_rules ! 1)) (snd (fraud_rules ! 1)) =
      Some (check_amount_anomaly tx0 profile0 (snd (fraud_rules ! 1)))"
    using amount_cfg_nth by (simp add: run_rule_def)
  finally have "execute_fraud_rules env0 tx0 profile0 ! 1 =
       \<lparr>rule_name = ''amount_anomaly'', triggered = False, score = 0,
        details = [(''error'', JStr ''FraudRuleResult: execution_time_ms '')],
        execution_time_ms = 1\<rparr>"
    using amount_cfg_nth c
    by (simp add: rule_outcome_def error_result_def env0_def)
  with f c show ?thesis by (simp add: tx0_def profile0_def)
qed

end
